theory Spec2Isabelle
  imports Main "HOL-Library.AList"
begin

section \<open>Go values: errors, panics, byte slices\<close>

text \<open>
  A Go \<^verbatim>\<open>error\<close> is modelled by what the code can observe of it: the message built by
  \<^verbatim>\<open>fmt.Errorf\<close>, the wrapped error of a \<^verbatim>\<open>%w\<close> verb, and the two classes the code
  tests for (\<^verbatim>\<open>os.IsNotExist\<close>, \<^verbatim>\<open>apierrors.IsNotFound\<close>). \<open>None :: error option\<close> is
  the nil error.
\<close>

datatype error =
    Errorf string
  | Wrap string error
  | External string
  | NotExist
  | NotFound
  | ErrWaitTimeout

text \<open>A call either panics (nil dereference, explicit \<^verbatim>\<open>panic(err)\<close>) or returns.\<close>

datatype 'a outcome = Panic | Return 'a

type_synonym bytes = string

section \<open>Package provider: manifest objects\<close>

text \<open>
  The Kubernetes API types, restricted to the fields that \<^verbatim>\<open>provider.go\<close> reads or
  writes. A Go pointer field is an \<open>option\<close>. The packages \<^verbatim>\<open>admissionregistration/v1\<close>
  and \<^verbatim>\<open>apiextensions/v1\<close> each declare a \<^verbatim>\<open>WebhookClientConfig\<close> and a
  \<^verbatim>\<open>ServiceReference\<close> with the same three fields; one record stands for both. Likewise
  \<^verbatim>\<open>MutatingWebhookConfiguration\<close> and \<^verbatim>\<open>ValidatingWebhookConfiguration\<close> share the
  record \<open>WebhookConfiguration\<close>: the code treats them by two textually equal loops.
\<close>

record ServiceReference =
  sr_Namespace :: string
  sr_Name :: string
  sr_Path :: "string option"

record WebhookClientConfig =
  URL :: "string option"
  Service :: "ServiceReference option"
  CABundle :: bytes

record Webhook =
  wh_Name :: string
  ClientConfig :: WebhookClientConfig

record WebhookConfiguration =
  hook_Name :: string
  hook_ResourceVersion :: string
  Webhooks :: "Webhook list"

record WebhookConversion =
  conv_ClientConfig :: "WebhookClientConfig option"
  ConversionReviewVersions :: "string list"

record CustomResourceConversion =
  Strategy :: string
  conv_Webhook :: "WebhookConversion option"

record CustomResourceDefinition =
  crd_Name :: string
  crd_ResourceVersion :: string
  Conversion :: "CustomResourceConversion option"

record providerURL =
  host :: string
  webhookPort :: int
  healthPort :: int

record providerPKI =
  dir :: string
  caData :: bytes

record manifestObjects =
  crds :: "CustomResourceDefinition list"
  mutHooks :: "WebhookConfiguration list"
  valHooks :: "WebhookConfiguration list"

subsection \<open>Formatting: \<^verbatim>\<open>%d\<close>, \<^verbatim>\<open>net.JoinHostPort\<close>, \<^verbatim>\<open>url.URL.String\<close>\<close>

function string_of_nat :: "nat \<Rightarrow> string" where
  "string_of_nat n =
     (if n < 10 then [''0123456789'' ! n]
      else string_of_nat (n div 10) @ [''0123456789'' ! (n mod 10)])"
  by pat_completeness auto
termination
  by (relation "measure id") auto

declare string_of_nat.simps [simp del]

text \<open>\<^verbatim>\<open>fmt.Sprintf("%d", i)\<close> for a Go \<^verbatim>\<open>int\<close>.\<close>

definition sprintf_d :: "int \<Rightarrow> string" where
  "sprintf_d i = (if i < 0 then ''-'' @ string_of_nat (nat (- i)) else string_of_nat (nat i))"

text \<open>\<^verbatim>\<open>net.JoinHostPort\<close>: a host that contains a colon (an IPv6 literal) is put in brackets.\<close>

definition JoinHostPort :: "string \<Rightarrow> string \<Rightarrow> string" where
  "JoinHostPort h p =
     (if CHR '':'' \<in> set h then ''['' @ h @ '']:'' @ p
      else h @ '':'' @ p)"

definition webhookHostPort :: "providerURL \<Rightarrow> string" where
  "webhookHostPort u = JoinHostPort (host u) (sprintf_d (webhookPort u))"

definition healthHostPort :: "providerURL \<Rightarrow> string" where
  "healthHostPort u = JoinHostPort (host u) (sprintf_d (healthPort u))"

text \<open>
  \<^verbatim>\<open>localServingUrl.String()\<close> for the \<^verbatim>\<open>url.URL{Scheme: "https", Host: u.webhookHostPort()}\<close>
  of \<^verbatim>\<open>readAndAdaptManifestObjects\<close>: scheme, \<^verbatim>\<open>://\<close>, host. (The host is the IP literal
  that \<^verbatim>\<open>addr.Suggest\<close> returned plus a port, on which the escaping of \<^verbatim>\<open>String\<close> is the
  identity.)
\<close>

definition localServingUrl :: "providerURL \<Rightarrow> string" where
  "localServingUrl u = ''https'' @ ''://'' @ webhookHostPort u"

subsection \<open>The adaptation loops of \<^verbatim>\<open>readAndAdaptManifestObjects\<close>\<close>

text \<open>
  Lines 451--465. The body of the loop over \<^verbatim>\<open>ret.crds\<close>: a nil \<^verbatim>\<open>Spec.Conversion\<close> is
  replaced by a fresh one with an empty \<^verbatim>\<open>Webhook\<close>; then, whatever the fragment declared,
  \<^verbatim>\<open>Strategy\<close>, \<^verbatim>\<open>Webhook.ConversionReviewVersions\<close> and \<^verbatim>\<open>Webhook.ClientConfig\<close> are
  assigned. The two assignments through \<^verbatim>\<open>Conversion.Webhook\<close> dereference that pointer:
  a declared conversion without a webhook section panics.
\<close>

definition adaptCRD :: "providerPKI \<Rightarrow> providerURL \<Rightarrow> CustomResourceDefinition
    \<Rightarrow> CustomResourceDefinition outcome" where
  "adaptCRD pki u crd =
     (let conv = (case Conversion crd of
                    None \<Rightarrow> \<lparr>Strategy = [],
                             conv_Webhook = Some \<lparr>conv_ClientConfig = None,
                                                  ConversionReviewVersions = []\<rparr>\<rparr>
                  | Some c \<Rightarrow> c);
          conv1 = conv\<lparr>Strategy := ''Webhook''\<rparr>
      in case conv_Webhook conv1 of
           None \<Rightarrow> Panic
         | Some w \<Rightarrow>
             Return (crd\<lparr>Conversion := Some (conv1\<lparr>conv_Webhook := Some
               (w\<lparr>ConversionReviewVersions := [''v1'', ''v1beta1''],
                  conv_ClientConfig := Some \<lparr>URL = Some (localServingUrl u @ ''/convert''),
                                              Service = None,
                                              CABundle = caData pki\<rparr>\<rparr>)\<rparr>)\<rparr>))"

fun adaptCRDs :: "providerPKI \<Rightarrow> providerURL \<Rightarrow> CustomResourceDefinition list
    \<Rightarrow> CustomResourceDefinition list outcome" where
  "adaptCRDs pki u [] = Return []"
| "adaptCRDs pki u (crd # rest) =
     (case adaptCRD pki u crd of
        Panic \<Rightarrow> Panic
      | Return crd' \<Rightarrow>
          (case adaptCRDs pki u rest of Panic \<Rightarrow> Panic | Return rest' \<Rightarrow> Return (crd' # rest')))"

text \<open>
  Lines 470--474 (and 481--485). The new \<^verbatim>\<open>ClientConfig\<close> of one webhook entry. Its URL is
  \<^verbatim>\<open>fmt.Sprintf("%s/%s", localServingUrl.String(), *...ClientConfig.Service.Path)\<close>: the
  old \<^verbatim>\<open>Service\<close> pointer and its \<^verbatim>\<open>Path\<close> pointer are both dereferenced.
\<close>

definition adaptWebhook :: "providerPKI \<Rightarrow> providerURL \<Rightarrow> Webhook \<Rightarrow> Webhook outcome" where
  "adaptWebhook pki u wh =
     (case Service (ClientConfig wh) of
        None \<Rightarrow> Panic
      | Some svc \<Rightarrow>
          (case sr_Path svc of
             None \<Rightarrow> Panic
           | Some path \<Rightarrow>
               Return (wh\<lparr>ClientConfig := \<lparr>URL = Some (localServingUrl u @ ''/'' @ path),
                                            Service = None,
                                            CABundle = caData pki\<rparr>\<rparr>)))"

fun adaptWebhooks :: "providerPKI \<Rightarrow> providerURL \<Rightarrow> Webhook list \<Rightarrow> Webhook list outcome" where
  "adaptWebhooks pki u [] = Return []"
| "adaptWebhooks pki u (wh # rest) =
     (case adaptWebhook pki u wh of
        Panic \<Rightarrow> Panic
      | Return wh' \<Rightarrow>
          (case adaptWebhooks pki u rest of Panic \<Rightarrow> Panic | Return rest' \<Rightarrow> Return (wh' # rest')))"

definition adaptHook :: "providerPKI \<Rightarrow> providerURL \<Rightarrow> WebhookConfiguration
    \<Rightarrow> WebhookConfiguration outcome" where
  "adaptHook pki u hook =
     (case adaptWebhooks pki u (Webhooks hook) of
        Panic \<Rightarrow> Panic
      | Return whs \<Rightarrow> Return (hook\<lparr>Webhooks := whs\<rparr>))"

fun adaptHooks :: "providerPKI \<Rightarrow> providerURL \<Rightarrow> WebhookConfiguration list
    \<Rightarrow> WebhookConfiguration list outcome" where
  "adaptHooks pki u [] = Return []"
| "adaptHooks pki u (hook # rest) =
     (case adaptHook pki u hook of
        Panic \<Rightarrow> Panic
      | Return hook' \<Rightarrow>
          (case adaptHooks pki u rest of Panic \<Rightarrow> Panic | Return rest' \<Rightarrow> Return (hook' # rest')))"

text \<open>Lines 446--489: the three loops in their order, then \<^verbatim>\<open>return ret, nil\<close>.\<close>

definition adaptManifestObjects :: "providerPKI \<Rightarrow> providerURL \<Rightarrow> manifestObjects
    \<Rightarrow> manifestObjects outcome" where
  "adaptManifestObjects pki u ret =
     (case adaptCRDs pki u (crds ret) of
        Panic \<Rightarrow> Panic
      | Return cs \<Rightarrow>
          (case adaptHooks pki u (mutHooks ret) of
             Panic \<Rightarrow> Panic
           | Return ms \<Rightarrow>
               (case adaptHooks pki u (valHooks ret) of
                  Panic \<Rightarrow> Panic
                | Return vs \<Rightarrow> Return \<lparr>crds = cs, mutHooks = ms, valHooks = vs\<rparr>)))"

subsection \<open>The classification loop of \<^verbatim>\<open>readAndAdaptManifestObjects\<close>\<close>

text \<open>
  A document fragment is a byte slice that the code only passes to \<^verbatim>\<open>yaml.Unmarshal\<close>,
  once into a \<^verbatim>\<open>metav1.PartialObjectMetadata\<close> and, depending on the kind found there, once
  into the typed object. The YAML library is outside the repository, so a fragment is
  given by the results of these calls.
\<close>

record PartialObjectMetadata =
  Kind :: string
  APIVersion :: string
  meta_Name :: string

record document =
  asGeneric :: "error + PartialObjectMetadata"
  asCRD :: "error + CustomResourceDefinition"
  asMutHook :: "error + WebhookConfiguration"
  asValHook :: "error + WebhookConfiguration"

text \<open>Lines 407--444, with \<open>ret\<close> the objects appended so far.\<close>

fun collectManifestObjects :: "manifestObjects \<Rightarrow> document list \<Rightarrow> error + manifestObjects" where
  "collectManifestObjects ret [] = Inr ret"
| "collectManifestObjects ret (doc # docs) =
     (case asGeneric doc of
        Inl err \<Rightarrow> Inl err
      | Inr generic \<Rightarrow>
          if Kind generic = ''CustomResourceDefinition'' then
            (if APIVersion generic \<noteq> ''apiextensions.k8s.io/v1''
             then Inl (Errorf (''only v1 is supported right now for CustomResourceDefinition (name: ''
                               @ meta_Name generic @ '')''))
             else (case asCRD doc of
                     Inl err \<Rightarrow> Inl err
                   | Inr crd \<Rightarrow> collectManifestObjects (ret\<lparr>crds := crds ret @ [crd]\<rparr>) docs))
          else if Kind generic = ''MutatingWebhookConfiguration'' then
            (if APIVersion generic \<noteq> ''admissionregistration.k8s.io/v1''
             then Inl (Errorf (''only v1 is supported right now for MutatingWebhookConfiguration (name: ''
                               @ meta_Name generic @ '')''))
             else (case asMutHook doc of
                     Inl err \<Rightarrow> Inl err
                   | Inr hook \<Rightarrow> collectManifestObjects (ret\<lparr>mutHooks := mutHooks ret @ [hook]\<rparr>) docs))
          else if Kind generic = ''ValidatingWebhookConfiguration'' then
            (if APIVersion generic \<noteq> ''admissionregistration.k8s.io/v1''
             then Inl (Errorf (''only v1 is supported right now for ValidatingWebhookConfiguration (name: ''
                               @ meta_Name generic @ '')''))
             else (case asValHook doc of
                     Inl err \<Rightarrow> Inl err
                   | Inr hook \<Rightarrow> collectManifestObjects (ret\<lparr>valHooks := valHooks ret @ [hook]\<rparr>) docs))
          else collectManifestObjects ret docs)"

subsection \<open>The API server as seen by the client\<close>

datatype object_kind = CRDKind | MutatingKind | ValidatingKind

datatype object =
    CRDObject CustomResourceDefinition
  | MutatingObject WebhookConfiguration
  | ValidatingObject WebhookConfiguration

datatype api_call = Get object_kind string | Create object | Update object

text \<open>
  What lies outside the repository and decides a run of \<^verbatim>\<open>createManifestObjects\<close>:
  the manifest file and its YAML reader (\<^verbatim>\<open>readDocuments\<close>), the three calls that build the
  client from the kubeconfig file, and the answers of the API server. An answer may depend
  on how many calls were made before it. \<open>apiGet\<close> answers with the stored object's
  resource version and whether its \<^verbatim>\<open>Established\<close> condition is true.
\<close>

record provider_env =
  readDocuments :: "string \<Rightarrow> error + document list"
  newClient :: "string \<Rightarrow> error option"
  apiGet :: "nat \<Rightarrow> object_kind \<Rightarrow> string \<Rightarrow> error + (string \<times> bool)"
  apiCreate :: "nat \<Rightarrow> object \<Rightarrow> error option"
  apiUpdate :: "nat \<Rightarrow> object \<Rightarrow> error option"

text \<open>Lines 397--490.\<close>

definition readAndAdaptManifestObjects :: "provider_env \<Rightarrow> string \<Rightarrow> providerPKI \<Rightarrow> providerURL
    \<Rightarrow> (error + manifestObjects) outcome" where
  "readAndAdaptManifestObjects env manifestPath pki u =
     (case readDocuments env manifestPath of
        Inl err \<Rightarrow> Return (Inl err)
      | Inr docs \<Rightarrow>
          (case collectManifestObjects \<lparr>crds = [], mutHooks = [], valHooks = []\<rparr> docs of
             Inl err \<Rightarrow> Return (Inl err)
           | Inr ret \<Rightarrow>
               (case adaptManifestObjects pki u ret of
                  Panic \<Rightarrow> Panic
                | Return ret' \<Rightarrow> Return (Inr ret'))))"

subsection \<open>\<^verbatim>\<open>createManifestObjects\<close>\<close>

fun kindOf :: "object \<Rightarrow> object_kind" where
  "kindOf (CRDObject _) = CRDKind"
| "kindOf (MutatingObject _) = MutatingKind"
| "kindOf (ValidatingObject _) = ValidatingKind"

fun nameOf :: "object \<Rightarrow> string" where
  "nameOf (CRDObject crd) = crd_Name crd"
| "nameOf (MutatingObject hook) = hook_Name hook"
| "nameOf (ValidatingObject hook) = hook_Name hook"

fun setResourceVersion :: "string \<Rightarrow> object \<Rightarrow> object" where
  "setResourceVersion rv (CRDObject crd) = CRDObject (crd\<lparr>crd_ResourceVersion := rv\<rparr>)"
| "setResourceVersion rv (MutatingObject hook) = MutatingObject (hook\<lparr>hook_ResourceVersion := rv\<rparr>)"
| "setResourceVersion rv (ValidatingObject hook) = ValidatingObject (hook\<lparr>hook_ResourceVersion := rv\<rparr>)"

text \<open>The name each closure uses for its kind in its error messages.\<close>

fun kindLabel :: "object_kind \<Rightarrow> string" where
  "kindLabel CRDKind = ''CRD''"
| "kindLabel MutatingKind = ''MutatingWebhookConfiguration''"
| "kindLabel ValidatingKind = ''ValidatingWebhookConfiguration''"

definition IsNotFound :: "error \<Rightarrow> bool" where
  "IsNotFound err = (err = NotFound)"

text \<open>
  The condition function handed to \<^verbatim>\<open>wait.PollImmediateInfiniteWithContext\<close>
  (lines 287--296, 325--333, 363--371), given the answer to its \<^verbatim>\<open>c.Get\<close>.
\<close>

definition readyCondition :: "object \<Rightarrow> error + (string \<times> bool) \<Rightarrow> bool \<times> error option" where
  "readyCondition obj answer =
     (case answer of
        Inl err \<Rightarrow>
          if IsNotFound err
          then (False, Some (Errorf (kindLabel (kindOf obj) @ '' '' @ nameOf obj
                                     @ '' was deleted before being established'')))
          else (False, Some (Wrap (''error fetching '' @ kindLabel (kindOf obj) @ '' '' @ nameOf obj) err))
      | Inr (rv, established) \<Rightarrow>
          (if kindOf obj = CRDKind then established else True, None))"

text \<open>
  \<^verbatim>\<open>wait.PollImmediateInfiniteWithContext\<close>: the condition is tried at once and then again
  until it holds, fails, or the context is done. The context is modelled by the number of
  further attempts the wait can make before it is cancelled.
\<close>

fun pollReady :: "provider_env \<Rightarrow> nat \<Rightarrow> object \<Rightarrow> api_call list \<Rightarrow> error option \<times> api_call list" where
  "pollReady env 0 obj tr =
     (case readyCondition obj (apiGet env (length tr) (kindOf obj) (nameOf obj)) of
        (_, Some err) \<Rightarrow> (Some err, tr @ [Get (kindOf obj) (nameOf obj)])
      | (True, None) \<Rightarrow> (None, tr @ [Get (kindOf obj) (nameOf obj)])
      | (False, None) \<Rightarrow> (Some ErrWaitTimeout, tr @ [Get (kindOf obj) (nameOf obj)]))"
| "pollReady env (Suc n) obj tr =
     (case readyCondition obj (apiGet env (length tr) (kindOf obj) (nameOf obj)) of
        (_, Some err) \<Rightarrow> (Some err, tr @ [Get (kindOf obj) (nameOf obj)])
      | (True, None) \<Rightarrow> (None, tr @ [Get (kindOf obj) (nameOf obj)])
      | (False, None) \<Rightarrow> pollReady env n obj (tr @ [Get (kindOf obj) (nameOf obj)]))"

definition waitReady :: "provider_env \<Rightarrow> nat \<Rightarrow> object \<Rightarrow> api_call list \<Rightarrow> error option \<times> api_call list" where
  "waitReady env polls obj tr =
     (case pollReady env polls obj tr of
        (Some err, tr') \<Rightarrow>
          (Some (Wrap (''error starting '' @ kindLabel (kindOf obj) @ '' '' @ nameOf obj) err), tr')
      | (None, tr') \<Rightarrow> (None, tr'))"

text \<open>
  One of the closures appended to \<^verbatim>\<open>fns\<close> (lines 270--301, 308--339, 346--376):
  get the object; create it when it is not found, else copy the server's resource version
  and update; then wait until it is ready. \<open>tr\<close> is the list of calls made so far.
\<close>

definition applyObject :: "provider_env \<Rightarrow> nat \<Rightarrow> object \<Rightarrow> api_call list \<Rightarrow> error option \<times> api_call list" where
  "applyObject env polls obj tr =
     (let tr1 = tr @ [Get (kindOf obj) (nameOf obj)];
          what = kindLabel (kindOf obj) @ '' '' @ nameOf obj
      in case apiGet env (length tr) (kindOf obj) (nameOf obj) of
           Inl err \<Rightarrow>
             if IsNotFound err then
               (case apiCreate env (length tr1) obj of
                  Some err' \<Rightarrow> (Some (Wrap (''error creating '' @ what) err'), tr1 @ [Create obj])
                | None \<Rightarrow> waitReady env polls obj (tr1 @ [Create obj]))
             else (Some (Wrap (''error fetching '' @ what) err), tr1)
         | Inr (rv, established) \<Rightarrow>
             (let obj' = setResourceVersion rv obj
              in case apiUpdate env (length tr1) obj' of
                   Some err' \<Rightarrow> (Some (Wrap (''error updating '' @ what) err'), tr1 @ [Update obj'])
                 | None \<Rightarrow> waitReady env polls obj' (tr1 @ [Update obj'])))"

text \<open>Lines 380--386: the closures run in order; the first error is a \<^verbatim>\<open>panic(err)\<close>.\<close>

fun runFns :: "provider_env \<Rightarrow> nat \<Rightarrow> object list \<Rightarrow> api_call list
    \<Rightarrow> (error option) outcome \<times> api_call list" where
  "runFns env polls [] tr = (Return None, tr)"
| "runFns env polls (obj # objs) tr =
     (case applyObject env polls obj tr of
        (Some err, tr') \<Rightarrow> (Panic, tr')
      | (None, tr') \<Rightarrow> runFns env polls objs tr')"

text \<open>
  Lines 241--389. The result is the outcome together with the calls made to the API
  server, in order.
\<close>

definition createManifestObjects :: "provider_env \<Rightarrow> nat \<Rightarrow> string \<Rightarrow> string \<Rightarrow> providerPKI
    \<Rightarrow> providerURL \<Rightarrow> (error option) outcome \<times> api_call list" where
  "createManifestObjects env polls manifestPath kubeConfig pki u =
     (case newClient env kubeConfig of
        Some err \<Rightarrow> (Panic, [])
      | None \<Rightarrow>
          (case readAndAdaptManifestObjects env manifestPath pki u of
             Panic \<Rightarrow> (Panic, [])
           | Return (Inl err) \<Rightarrow> (Return (Some (Wrap ''unable to get provider crds'' err)), [])
           | Return (Inr objs) \<Rightarrow>
               runFns env polls
                 (map CRDObject (crds objs) @ map MutatingObject (mutHooks objs)
                  @ map ValidatingObject (valHooks objs)) []))"

section \<open>Package kubeconfig: the credentials file\<close>

text \<open>
  The fields of \<^verbatim>\<open>clientcmdapi.Config\<close> that the package touches. A Go map is an association
  list whose order stands for one iteration order of \<^verbatim>\<open>range\<close>; \<^verbatim>\<open>m[k] = v\<close> is
  \<^const>\<open>AList.update\<close>, \<^verbatim>\<open>delete(m, k)\<close> is \<^const>\<open>AList.delete\<close>, and \<^verbatim>\<open>_, ok := m[k]\<close>
  is \<^const>\<open>map_of\<close>. A Go map holds at most one entry per key: \<open>wf_Config\<close>. (The maps
  are never nil: \<^verbatim>\<open>clientcmdapi.NewConfig\<close> and the loaders of \<^verbatim>\<open>clientcmd\<close> allocate them.)
\<close>

record Cluster =
  Server :: string
  CertificateAuthorityData :: bytes

record AuthInfo =
  ClientKeyData :: bytes
  ClientCertificateData :: bytes

record Context =
  ctx_Cluster :: string
  ctx_AuthInfo :: string

record Config =
  Clusters :: "(string \<times> Cluster) list"
  AuthInfos :: "(string \<times> AuthInfo) list"
  Contexts :: "(string \<times> Context) list"
  CurrentContext :: string

definition wf_Config :: "Config \<Rightarrow> bool" where
  "wf_Config c \<longleftrightarrow>
     distinct (map fst (Clusters c)) \<and> distinct (map fst (AuthInfos c))
     \<and> distinct (map fst (Contexts c))"

definition NewConfig :: Config where
  "NewConfig = \<lparr>Clusters = [], AuthInfos = [], Contexts = [], CurrentContext = []\<rparr>"

text \<open>
  \<^verbatim>\<open>certs.TinyCA\<close> lies outside the sources at hand: its certificate bytes, and the result of
  \<^verbatim>\<open>NewClientCert\<close> followed by \<^verbatim>\<open>AsBytes\<close> for a name and its groups (certificate and key,
  or the error of either call).
\<close>

record TinyCA =
  CertBytes :: bytes
  NewClientCert :: "string \<Rightarrow> string list \<Rightarrow> error + (bytes \<times> bytes)"

definition systemPrivilegedGroup :: string where
  "systemPrivilegedGroup = ''system:masters''"

definition clusterKey :: "string \<Rightarrow> string" where
  "clusterKey clusterName = ''kBB-8-'' @ clusterName"

definition contextKey :: "string \<Rightarrow> string" where
  "contextKey clusterName = ''kBB-8-'' @ clusterName"

definition userKey :: "string \<Rightarrow> string" where
  "userKey clusterName = ''kBB-8-'' @ clusterName @ ''-admin''"

definition create :: "TinyCA \<Rightarrow> string \<Rightarrow> string \<Rightarrow> error + Config" where
  "create ca clusterName url =
     (case NewClientCert ca (userKey clusterName) [systemPrivilegedGroup] of
        Inl err \<Rightarrow> Inl err
      | Inr (certBytes, keyBytes) \<Rightarrow>
          Inr \<lparr>Clusters = [(clusterKey clusterName,
                             \<lparr>Server = url, CertificateAuthorityData = CertBytes ca\<rparr>)],
               AuthInfos = [(userKey clusterName,
                             \<lparr>ClientKeyData = keyBytes, ClientCertificateData = certBytes\<rparr>)],
               Contexts = [(contextKey clusterName,
                            \<lparr>ctx_Cluster = clusterKey clusterName,
                             ctx_AuthInfo = userKey clusterName\<rparr>)],
               CurrentContext = contextKey clusterName\<rparr>)"

text \<open>
  The inner loop of \<^verbatim>\<open>merge\<close> over the names of the existing map: on the name that equals
  the new one the entry is overwritten and \<^verbatim>\<open>shouldAppend\<close> is cleared.
\<close>

fun scanExisting :: "string \<Rightarrow> 'v \<Rightarrow> string list \<Rightarrow> (string \<times> 'v) list \<times> bool
    \<Rightarrow> (string \<times> 'v) list \<times> bool" where
  "scanExisting newName newEntry [] (existing, shouldAppend) = (existing, shouldAppend)"
| "scanExisting newName newEntry (existingName # names) (existing, shouldAppend) =
     (if existingName = newName
      then scanExisting newName newEntry names (AList.update existingName newEntry existing, False)
      else scanExisting newName newEntry names (existing, shouldAppend))"

text \<open>The body of the outer loop, for one entry of the new map.\<close>

definition mergeEntry :: "string \<Rightarrow> 'v \<Rightarrow> (string \<times> 'v) list \<Rightarrow> (string \<times> 'v) list" where
  "mergeEntry newName newEntry existing =
     (case scanExisting newName newEntry (map fst existing) (existing, True) of
        (existing', shouldAppend) \<Rightarrow>
          if shouldAppend then AList.update newName newEntry existing' else existing')"

fun mergeMap :: "(string \<times> 'v) list \<Rightarrow> (string \<times> 'v) list \<Rightarrow> (string \<times> 'v) list" where
  "mergeMap [] existing = existing"
| "mergeMap ((newName, newEntry) # rest) existing = mergeMap rest (mergeEntry newName newEntry existing)"

text \<open>\<^verbatim>\<open>merge\<close> updates \<^verbatim>\<open>existing\<close> in place; the error it returns is always nil.\<close>

definition merge :: "Config \<Rightarrow> Config \<Rightarrow> Config" where
  "merge new existing =
     \<lparr>Clusters = mergeMap (Clusters new) (Clusters existing),
      AuthInfos = mergeMap (AuthInfos new) (AuthInfos existing),
      Contexts = mergeMap (Contexts new) (Contexts existing),
      CurrentContext = CurrentContext new\<rparr>"

text \<open>\<^verbatim>\<open>remove\<close> returns \<^verbatim>\<open>mutated\<close>; the config is changed in place.\<close>

definition remove :: "string \<Rightarrow> Config \<Rightarrow> bool \<times> Config" where
  "remove clusterName config =
     (let (mutated1, config1) =
            (if map_of (Clusters config) (clusterKey clusterName) \<noteq> None
             then (True, config\<lparr>Clusters := AList.delete (clusterKey clusterName) (Clusters config)\<rparr>)
             else (False, config));
          (mutated2, config2) =
            (if map_of (AuthInfos config1) (userKey clusterName) \<noteq> None
             then (True, config1\<lparr>AuthInfos := AList.delete (userKey clusterName) (AuthInfos config1)\<rparr>)
             else (mutated1, config1));
          (mutated3, config3) =
            (if map_of (Contexts config2) (contextKey clusterName) \<noteq> None
             then (True, config2\<lparr>Contexts := AList.delete (contextKey clusterName) (Contexts config2)\<rparr>)
             else (mutated2, config2))
      in if CurrentContext config3 = contextKey clusterName
         then (True, config3\<lparr>CurrentContext := []\<rparr>)
         else (mutated3, config3))"

section \<open>The machine around the program\<close>

text \<open>
  The operations on the operating system that the stop paths and the credentials file
  perform, in the order performed, and the credentials files by path. A file maps to the
  config that \<^verbatim>\<open>clientcmd.LoadFromFile\<close> parses from it; a path that cannot be loaded is
  absent.
\<close>

datatype event =
    ProcessStop string
  | Flush string
  | Close string
  | RemoveAll string
  | LoadFile string
  | WriteFile string

record world =
  files :: "string \<rightharpoonup> Config"
  trace :: "event list"

text \<open>
  What the environment decides: the error, if any, of each operation; what
  \<^verbatim>\<open>process.State.Stop\<close> does on a nil \<^verbatim>\<open>*process.State\<close> (package \<^verbatim>\<open>process\<close> is not among
  the sources); and the loading rules of \<^verbatim>\<open>clientcmd\<close> for an explicit path (the list of
  \<^verbatim>\<open>GetLoadingPrecedence\<close>, the file of \<^verbatim>\<open>GetDefaultFilename\<close>, the merged config of \<^verbatim>\<open>Load\<close>).
\<close>

record os_env =
  opError :: "event \<Rightarrow> error option"
  nilStateStop :: "(error option) outcome"
  loadingPrecedence :: "string \<Rightarrow> string list"
  defaultFilename :: "string \<Rightarrow> string"
  rulesLoad :: "(string \<rightharpoonup> Config) \<Rightarrow> string \<Rightarrow> error + Config"

definition sysCall :: "os_env \<Rightarrow> event \<Rightarrow> world \<Rightarrow> (error option) outcome \<times> world" where
  "sysCall env ev w = (Return (opError env ev), w\<lparr>trace := trace w @ [ev]\<rparr>)"

text \<open>The idiom \<^verbatim>\<open>if err := step; err != nil { return err }\<close> followed by the rest.\<close>

definition orReturn :: "(world \<Rightarrow> (error option) outcome \<times> world)
    \<Rightarrow> (world \<Rightarrow> (error option) outcome \<times> world) \<Rightarrow> world \<Rightarrow> (error option) outcome \<times> world" where
  "orReturn step rest w =
     (case step w of
        (Return None, w') \<Rightarrow> rest w'
      | (Return (Some err), w') \<Rightarrow> (Return (Some err), w')
      | (Panic, w') \<Rightarrow> (Panic, w'))"

definition returnNil :: "world \<Rightarrow> (error option) outcome \<times> world" where
  "returnNil w = (Return None, w)"

subsection \<open>\<^verbatim>\<open>CreateOrMerge\<close> and \<^verbatim>\<open>Remove\<close>\<close>

definition IsNotExist :: "error \<Rightarrow> bool" where
  "IsNotExist err = (err = NotExist)"

definition LoadFromFile :: "string \<Rightarrow> world \<Rightarrow> (error + Config) \<times> world" where
  "LoadFromFile path w =
     (case files w path of None \<Rightarrow> Inl NotExist | Some c \<Rightarrow> Inr c,
      w\<lparr>trace := trace w @ [LoadFile path]\<rparr>)"

definition WriteToFile :: "os_env \<Rightarrow> Config \<Rightarrow> string \<Rightarrow> world \<Rightarrow> error option \<times> world" where
  "WriteToFile env config path w =
     (case opError env (WriteFile path) of
        Some err \<Rightarrow> (Some err, w\<lparr>trace := trace w @ [WriteFile path]\<rparr>)
      | None \<Rightarrow> (None, w\<lparr>files := (files w)(path \<mapsto> config), trace := trace w @ [WriteFile path]\<rparr>))"

text \<open>
  \<^verbatim>\<open>CreateOrMerge\<close> returns the path and the current context, or an error. The error of
  \<^verbatim>\<open>create\<close> is not looked at: after a failed \<^verbatim>\<open>create\<close>, \<^verbatim>\<open>newConfig\<close> is nil and
  \<^verbatim>\<open>merge\<close> dereferences it.
\<close>

definition CreateOrMerge :: "os_env \<Rightarrow> TinyCA \<Rightarrow> string \<Rightarrow> string \<Rightarrow> string \<Rightarrow> world
    \<Rightarrow> (error + string \<times> string) outcome \<times> world" where
  "CreateOrMerge env ca url clusterName explicitPath w =
     (case (case rulesLoad env (files w) explicitPath of
              Inl err \<Rightarrow>
                if \<not> (explicitPath \<noteq> [] \<and> IsNotExist err) then Inl err else Inr NewConfig
            | Inr existingConfig \<Rightarrow> Inr existingConfig) of
        Inl err \<Rightarrow> (Return (Inl err), w)
      | Inr existingConfig \<Rightarrow>
          (case create ca clusterName url of
             Inl err \<Rightarrow> (Panic, w)
           | Inr newConfig \<Rightarrow>
               (let merged = merge newConfig existingConfig;
                    kubeConfigPath = defaultFilename env explicitPath
                in case WriteToFile env merged kubeConfigPath w of
                     (Some err, w') \<Rightarrow> (Return (Inl err), w')
                   | (None, w') \<Rightarrow> (Return (Inr (kubeConfigPath, CurrentContext merged)), w'))))"

text \<open>The loop of \<^verbatim>\<open>Remove\<close> over the paths of \<^verbatim>\<open>rules.GetLoadingPrecedence()\<close>.\<close>

fun removeFrom :: "os_env \<Rightarrow> string \<Rightarrow> string list \<Rightarrow> world \<Rightarrow> (error option) outcome \<times> world" where
  "removeFrom env clusterName [] w = (Return None, w)"
| "removeFrom env clusterName (kubeConfigPath # paths) w =
     (case LoadFromFile kubeConfigPath w of
        (Inl err, w1) \<Rightarrow> (Return (Some err), w1)
      | (Inr existingConfig, w1) \<Rightarrow>
          (case remove clusterName existingConfig of
             (True, config') \<Rightarrow>
               (case WriteToFile env config' kubeConfigPath w1 of
                  (Some err, w2) \<Rightarrow> (Return (Some err), w2)
                | (None, w2) \<Rightarrow> removeFrom env clusterName paths w2)
           | (False, config') \<Rightarrow> removeFrom env clusterName paths w1))"

definition Remove :: "os_env \<Rightarrow> string \<Rightarrow> string \<Rightarrow> world \<Rightarrow> (error option) outcome \<times> world" where
  "Remove env clusterName explicitPath w =
     removeFrom env clusterName (loadingPrecedence env explicitPath) w"

section \<open>Package controlplane and the stop path of a provider\<close>

text \<open>
  Modelled from the spec: \<^verbatim>\<open>process.State\<close> and its \<^verbatim>\<open>Stop\<close> (package \<^verbatim>\<open>pkg/process\<close> is
  not among the sources). The spec: \<^verbatim>\<open>Stop()\<close> sends a termination signal to the spawned
  process, waits for exit, and is safe to call on a never-started handle (no-op, no panic).
  What it does on a nil pointer is left to the environment.
\<close>

record process_State =
  ps_Path :: string
  ps_Args :: "string list"
  ps_started :: bool

definition process_Stop :: "os_env \<Rightarrow> process_State option \<Rightarrow> world \<Rightarrow> (error option) outcome \<times> world" where
  "process_Stop env ps w =
     (case ps of
        None \<Rightarrow> (nilStateStop env, w)
      | Some st \<Rightarrow> if ps_started st then sysCall env (ProcessStop (ps_Path st)) w else returnNil w)"

text \<open>
  An \<^verbatim>\<open>*os.File\<close> and the \<^verbatim>\<open>*bufio.Writer\<close> on it are named by the path of the file; a
  nil pointer is \<open>None\<close>.
\<close>

record Etcd =
  etcd_Path :: string
  etcd_URL :: "string option"
  dataDir :: string
  etcd_processState :: "process_State option"
  etcd_logFile :: "string option"
  etcd_logFileWriter :: "string option"

record APIServer =
  EtcdURL :: "string option"
  api_Path :: string
  api_URL :: "string option"
  api_CA :: "TinyCA option"
  api_processState :: "process_State option"
  api_logFile :: "string option"
  api_logFileWriter :: "string option"

record ControlPlane =
  cp_PackagePath :: string
  KubeConfigFile :: string
  KubeConfigContext :: string
  etcd :: "Etcd option"
  apiServer :: "APIServer option"

record Provider =
  PackagePath :: string
  Args :: "string list"
  processState :: "process_State option"
  logFile :: "string option"
  logFileWriter :: "string option"

text \<open>The guarded steps shared by the three \<^verbatim>\<open>Stop\<close> methods.\<close>

definition flushIfSet :: "os_env \<Rightarrow> string option \<Rightarrow> world \<Rightarrow> (error option) outcome \<times> world" where
  "flushIfSet env writer w = (case writer of None \<Rightarrow> returnNil w | Some f \<Rightarrow> sysCall env (Flush f) w)"

definition closeIfSet :: "os_env \<Rightarrow> string option \<Rightarrow> world \<Rightarrow> (error option) outcome \<times> world" where
  "closeIfSet env file w = (case file of None \<Rightarrow> returnNil w | Some f \<Rightarrow> sysCall env (Close f) w)"

text \<open>
  \<^verbatim>\<open>(e *Etcd) Stop\<close>, on a receiver that may be nil: its first statement reads
  \<^verbatim>\<open>e.processState\<close>, which on a nil receiver is a nil dereference.
\<close>

definition Etcd_Stop :: "os_env \<Rightarrow> Etcd option \<Rightarrow> world \<Rightarrow> (error option) outcome \<times> world" where
  "Etcd_Stop env receiver w =
     (case receiver of
        None \<Rightarrow> (Panic, w)
      | Some e \<Rightarrow>
          orReturn (process_Stop env (etcd_processState e))
         (orReturn (flushIfSet env (etcd_logFileWriter e))
         (orReturn (closeIfSet env (etcd_logFile e))
                   (sysCall env (RemoveAll (dataDir e))))) w)"

definition APIServer_Stop :: "os_env \<Rightarrow> APIServer option \<Rightarrow> world \<Rightarrow> (error option) outcome \<times> world" where
  "APIServer_Stop env receiver w =
     (case receiver of
        None \<Rightarrow> (Panic, w)
      | Some a \<Rightarrow>
          orReturn (process_Stop env (api_processState a))
         (orReturn (flushIfSet env (api_logFileWriter a))
         (orReturn (closeIfSet env (api_logFile a))
                   returnNil)) w)"

text \<open>\<^verbatim>\<open>(cp *ControlPlane) Stop\<close>, lines 62--76.\<close>

definition ControlPlane_Stop :: "os_env \<Rightarrow> ControlPlane \<Rightarrow> world \<Rightarrow> (error option) outcome \<times> world" where
  "ControlPlane_Stop env cp =
     orReturn (APIServer_Stop env (apiServer cp))
    (orReturn (Etcd_Stop env (etcd cp))
    (orReturn (Remove env ''bootstrap'' [])
              returnNil))"

text \<open>\<^verbatim>\<open>(p *Provider) Stop\<close>, lines 115--134.\<close>

definition Provider_Stop :: "os_env \<Rightarrow> Provider \<Rightarrow> world \<Rightarrow> (error option) outcome \<times> world" where
  "Provider_Stop env p =
     orReturn (process_Stop env (processState p))
    (orReturn (flushIfSet env (logFileWriter p))
    (orReturn (closeIfSet env (logFile p))
              returnNil))"

section \<open>Vocabulary of the properties\<close>

text \<open>
  The three version tests of the classification loop, the error each of them returns, and
  the errors that \<^verbatim>\<open>yaml.Unmarshal\<close> can return for a fragment (that of the generic
  decoding, or that of the typed decoding its kind selects).
\<close>

definition unsupportedVersion :: "PartialObjectMetadata \<Rightarrow> bool" where
  "unsupportedVersion g \<longleftrightarrow>
     Kind g = ''CustomResourceDefinition'' \<and> APIVersion g \<noteq> ''apiextensions.k8s.io/v1''
     \<or> Kind g = ''MutatingWebhookConfiguration'' \<and> APIVersion g \<noteq> ''admissionregistration.k8s.io/v1''
     \<or> Kind g = ''ValidatingWebhookConfiguration'' \<and> APIVersion g \<noteq> ''admissionregistration.k8s.io/v1''"

definition versionError :: "PartialObjectMetadata \<Rightarrow> error" where
  "versionError g =
     Errorf (''only v1 is supported right now for '' @ Kind g @ '' (name: '' @ meta_Name g @ '')'')"

definition yamlError :: "document \<Rightarrow> error \<Rightarrow> bool" where
  "yamlError d err =
     (case asGeneric d of
        Inl e \<Rightarrow> e = err
      | Inr g \<Rightarrow>
          if Kind g = ''CustomResourceDefinition'' then asCRD d = Inl err
          else if Kind g = ''MutatingWebhookConfiguration'' then asMutHook d = Inl err
          else if Kind g = ''ValidatingWebhookConfiguration'' then asValHook d = Inl err
          else False)"

text \<open>
  For the credentials file: none of the three keys derived from a cluster name is present.
  For the stop paths: the operations of a stop in which nothing fails, and the operations
  that belong to the credentials file.
\<close>

definition absent :: "string \<Rightarrow> Config \<Rightarrow> bool" where
  "absent clusterName c \<longleftrightarrow>
     map_of (Clusters c) (clusterKey clusterName) = None
     \<and> map_of (AuthInfos c) (userKey clusterName) = None
     \<and> map_of (Contexts c) (contextKey clusterName) = None"

definition stopEvents :: "process_State \<Rightarrow> string option \<Rightarrow> string option \<Rightarrow> event list" where
  "stopEvents ps writer file =
     (if ps_started ps then [ProcessStop (ps_Path ps)] else [])
     @ (case writer of None \<Rightarrow> [] | Some f \<Rightarrow> [Flush f])
     @ (case file of None \<Rightarrow> [] | Some f \<Rightarrow> [Close f])"

fun credentialsEvent :: "event \<Rightarrow> bool" where
  "credentialsEvent (LoadFile path) = True"
| "credentialsEvent (WriteFile path) = True"
| "credentialsEvent ev = False"

section \<open>Properties\<close>

subsection \<open>Stopping a control plane that never started\<close>

text \<open>
  Claim C3 says that \<^verbatim>\<open>Stop()\<close> does not panic in any state in which \<^verbatim>\<open>Start()\<close> never
  completed, the state where nothing was ever initialized included. The code guards
  \<^verbatim>\<open>logFileWriter\<close> and \<^verbatim>\<open>logFile\<close> against nil, but not the \<^verbatim>\<open>apiServer\<close> pointer: on every
  control plane whose \<^verbatim>\<open>apiServer\<close> field is nil (a fresh \<^verbatim>\<open>ControlPlane{}\<close>, or one whose
  \<^verbatim>\<open>Start()\<close> returned the error of \<^verbatim>\<open>etcd.Start()\<close>), \<^verbatim>\<open>Stop()\<close> panics in its first
  statement, before any operation on the machine.
\<close>

theorem ControlPlane_Stop_nil_apiServer_panics:
  "ControlPlane_Stop env (cp\<lparr>apiServer := None\<rparr>) w = (Panic, w)"
  by (simp add: ControlPlane_Stop_def orReturn_def APIServer_Stop_def)

subsection \<open>The classification loop\<close>

lemma collect_keeps_mutHooks:
  "collectManifestObjects acc docs = Inr ret \<Longrightarrow> hook \<in> set (mutHooks acc)
   \<Longrightarrow> hook \<in> set (mutHooks ret)"
  by (induction docs arbitrary: acc) (auto split: sum.splits if_splits)

lemma collect_keeps_valHooks:
  "collectManifestObjects acc docs = Inr ret \<Longrightarrow> hook \<in> set (valHooks acc)
   \<Longrightarrow> hook \<in> set (valHooks ret)"
  by (induction docs arbitrary: acc) (auto split: sum.splits if_splits)

lemma collect_mutHooks:
  "collectManifestObjects acc docs = Inr ret \<Longrightarrow> d \<in> set docs \<Longrightarrow> asGeneric d = Inr g
   \<Longrightarrow> Kind g = ''MutatingWebhookConfiguration'' \<Longrightarrow> asMutHook d = Inr hook
   \<Longrightarrow> hook \<in> set (mutHooks ret)"
proof (induction docs arbitrary: acc)
  case Nil
  then show ?case by simp
next
  case (Cons a docs)
  show ?case
  proof (cases "a = d")
    case True
    with Cons.prems have "collectManifestObjects (acc\<lparr>mutHooks := mutHooks acc @ [hook]\<rparr>) docs = Inr ret"
      by (auto split: if_splits)
    then show ?thesis by (rule collect_keeps_mutHooks) simp
  next
    case False
    with Cons.prems have in_docs: "d \<in> set docs" by simp
    from Cons.prems(1) obtain acc' where "collectManifestObjects acc' docs = Inr ret"
      by (auto split: sum.splits if_splits)
    from Cons.IH[OF this in_docs Cons.prems(3,4,5)] show ?thesis .
  qed
qed

lemma collect_valHooks:
  "collectManifestObjects acc docs = Inr ret \<Longrightarrow> d \<in> set docs \<Longrightarrow> asGeneric d = Inr g
   \<Longrightarrow> Kind g = ''ValidatingWebhookConfiguration'' \<Longrightarrow> asValHook d = Inr hook
   \<Longrightarrow> hook \<in> set (valHooks ret)"
proof (induction docs arbitrary: acc)
  case Nil
  then show ?case by simp
next
  case (Cons a docs)
  show ?case
  proof (cases "a = d")
    case True
    with Cons.prems have "collectManifestObjects (acc\<lparr>valHooks := valHooks acc @ [hook]\<rparr>) docs = Inr ret"
      by (auto split: if_splits)
    then show ?thesis by (rule collect_keeps_valHooks) simp
  next
    case False
    with Cons.prems have in_docs: "d \<in> set docs" by simp
    from Cons.prems(1) obtain acc' where "collectManifestObjects acc' docs = Inr ret"
      by (auto split: sum.splits if_splits)
    from Cons.IH[OF this in_docs Cons.prems(3,4,5)] show ?thesis .
  qed
qed

lemma collect_unsupported:
  "d \<in> set docs \<Longrightarrow> asGeneric d = Inr g \<Longrightarrow> unsupportedVersion g
   \<Longrightarrow> \<exists>err. collectManifestObjects acc docs = Inl err"
proof (induction docs arbitrary: acc)
  case Nil
  then show ?case by simp
next
  case (Cons a docs)
  show ?case
  proof (cases "a = d")
    case True
    with Cons.prems show ?thesis
      by (auto simp: unsupportedVersion_def split: sum.splits)
  next
    case False
    with Cons.prems have "d \<in> set docs" by simp
    from Cons.IH[OF this Cons.prems(2,3)] show ?thesis
      by (auto split: sum.splits)
  qed
qed

lemma collect_error_cases:
  "collectManifestObjects acc docs = Inl err \<Longrightarrow>
     (\<exists>d \<in> set docs. yamlError d err)
     \<or> (\<exists>d \<in> set docs. \<exists>g. asGeneric d = Inr g \<and> unsupportedVersion g \<and> err = versionError g)"
proof (induction docs arbitrary: acc)
  case Nil
  then show ?case by simp
next
  case (Cons a docs)
  show ?case
  proof (cases "asGeneric a")
    case (Inl e)
    with Cons.prems show ?thesis by (simp add: yamlError_def)
  next
    case (Inr g)
    consider (crd) "Kind g = ''CustomResourceDefinition''"
      | (mut) "Kind g = ''MutatingWebhookConfiguration''"
      | (val) "Kind g = ''ValidatingWebhookConfiguration''"
      | (other) "Kind g \<noteq> ''CustomResourceDefinition''" "Kind g \<noteq> ''MutatingWebhookConfiguration''"
          "Kind g \<noteq> ''ValidatingWebhookConfiguration''"
      by blast
    then show ?thesis
    proof cases
      case crd
      show ?thesis
      proof (cases "APIVersion g = ''apiextensions.k8s.io/v1''")
        case False
        with crd Inr Cons.prems show ?thesis
          by (auto simp: unsupportedVersion_def versionError_def)
      next
        case True
        show ?thesis
        proof (cases "asCRD a")
          case (Inl e)
          with True crd Inr Cons.prems show ?thesis by (simp add: yamlError_def)
        next
          case (Inr c)
          with True crd \<open>asGeneric a = Inr g\<close> Cons.prems
          have "collectManifestObjects (acc\<lparr>crds := crds acc @ [c]\<rparr>) docs = Inl err" by simp
          from Cons.IH[OF this] show ?thesis by auto
        qed
      qed
    next
      case mut
      show ?thesis
      proof (cases "APIVersion g = ''admissionregistration.k8s.io/v1''")
        case False
        with mut Inr Cons.prems show ?thesis
          by (auto simp: unsupportedVersion_def versionError_def)
      next
        case True
        show ?thesis
        proof (cases "asMutHook a")
          case (Inl e)
          with True mut Inr Cons.prems show ?thesis by (simp add: yamlError_def)
        next
          case (Inr c)
          with True mut \<open>asGeneric a = Inr g\<close> Cons.prems
          have "collectManifestObjects (acc\<lparr>mutHooks := mutHooks acc @ [c]\<rparr>) docs = Inl err" by simp
          from Cons.IH[OF this] show ?thesis by auto
        qed
      qed
    next
      case val
      show ?thesis
      proof (cases "APIVersion g = ''admissionregistration.k8s.io/v1''")
        case False
        with val Inr Cons.prems show ?thesis
          by (auto simp: unsupportedVersion_def versionError_def)
      next
        case True
        show ?thesis
        proof (cases "asValHook a")
          case (Inl e)
          with True val Inr Cons.prems show ?thesis by (simp add: yamlError_def)
        next
          case (Inr c)
          with True val \<open>asGeneric a = Inr g\<close> Cons.prems
          have "collectManifestObjects (acc\<lparr>valHooks := valHooks acc @ [c]\<rparr>) docs = Inl err" by simp
          from Cons.IH[OF this] show ?thesis by auto
        qed
      qed
    next
      case other
      with Inr Cons.prems have "collectManifestObjects acc docs = Inl err" by simp
      from Cons.IH[OF this] show ?thesis by auto
    qed
  qed
qed

subsection \<open>Rewriting the webhook callbacks\<close>

text \<open>
  Claim C1: for a webhook entry whose service path is \<^verbatim>\<open>/mutate\<close>, the rewritten
  \<^verbatim>\<open>ClientConfig\<close> has the URL \<^verbatim>\<open>https://<host>:<port>/mutate\<close>, the CA data of the provider
  as \<^verbatim>\<open>CABundle\<close> and a nil \<^verbatim>\<open>Service\<close>. The code joins the serving URL and the path with
  the format \<^verbatim>\<open>"%s/%s"\<close>, so on the path \<^verbatim>\<open>/mutate\<close>, host \<^verbatim>\<open>127.0.0.1\<close> and port
  \<^verbatim>\<open>9443\<close> the URL it writes is \<^verbatim>\<open>https://127.0.0.1:9443//mutate\<close>, with two slashes
  (the sibling loop for CRDs formats \<^verbatim>\<open>"%s/convert"\<close> and gets one). \<^verbatim>\<open>CABundle\<close> and
  \<^verbatim>\<open>Service\<close> are as the claim says.
\<close>

theorem webhook_url_for_path_mutate:
  "readAndAdaptManifestObjects
     (env\<lparr>readDocuments := \<lambda>path. Inr
        [\<lparr>asGeneric = Inr \<lparr>Kind = ''MutatingWebhookConfiguration'',
                             APIVersion = ''admissionregistration.k8s.io/v1'',
                             meta_Name = ''mutating''\<rparr>,
          asCRD = Inl (External ''not a CRD''),
          asMutHook = Inr \<lparr>hook_Name = ''mutating'', hook_ResourceVersion = [],
            Webhooks = [\<lparr>wh_Name = ''default.cluster.x-k8s.io'',
              ClientConfig = \<lparr>URL = None,
                Service = Some \<lparr>sr_Namespace = ''capi-system'', sr_Name = ''capi-webhook-service'',
                                sr_Path = Some ''/mutate''\<rparr>,
                CABundle = ''Cg==''\<rparr>\<rparr>]\<rparr>,
          asValHook = Inl (External ''not decoded'')\<rparr>]\<rparr>)
     manifestPath \<lparr>dir = ''ca'', caData = ''PEM''\<rparr>
     \<lparr>host = ''127.0.0.1'', webhookPort = 9443, healthPort = 9440\<rparr>
   = Return (Inr \<lparr>crds = [],
       mutHooks = [\<lparr>hook_Name = ''mutating'', hook_ResourceVersion = [],
         Webhooks = [\<lparr>wh_Name = ''default.cluster.x-k8s.io'',
           ClientConfig = \<lparr>URL = Some ''https://127.0.0.1:9443//mutate'', Service = None,
                           CABundle = ''PEM''\<rparr>\<rparr>]\<rparr>],
       valHooks = []\<rparr>)"
  by (simp add: readAndAdaptManifestObjects_def adaptManifestObjects_def adaptHook_def
      adaptWebhook_def localServingUrl_def webhookHostPort_def JoinHostPort_def sprintf_d_def
      string_of_nat.simps)

lemma adaptWebhooks_nil_service:
  "wh \<in> set whs \<Longrightarrow> Service (ClientConfig wh) = None \<Longrightarrow> adaptWebhooks pki u whs = Panic"
  by (induction whs) (auto simp: adaptWebhook_def split: outcome.splits option.splits)

lemma adaptHooks_nil_service:
  "hook \<in> set hooks \<Longrightarrow> wh \<in> set (Webhooks hook) \<Longrightarrow> Service (ClientConfig wh) = None
   \<Longrightarrow> adaptHooks pki u hooks = Panic"
  by (induction hooks) (auto simp: adaptHook_def adaptWebhooks_nil_service split: outcome.splits)

lemma adaptManifestObjects_nil_service:
  "hook \<in> set (mutHooks ret) \<union> set (valHooks ret) \<Longrightarrow> wh \<in> set (Webhooks hook)
   \<Longrightarrow> Service (ClientConfig wh) = None \<Longrightarrow> adaptManifestObjects pki u ret = Panic"
  by (auto simp: adaptManifestObjects_def adaptHooks_nil_service split: outcome.splits)

text \<open>
  Claim C10: when a fragment of kind \<^verbatim>\<open>MutatingWebhookConfiguration\<close> or
  \<^verbatim>\<open>ValidatingWebhookConfiguration\<close> holds a webhook entry whose \<^verbatim>\<open>ClientConfig.Service\<close>
  is nil, and the manifest gets through the classification loop, the adaptation step
  panics: \<^verbatim>\<open>readAndAdaptManifestObjects\<close> neither returns objects nor an error.
\<close>

theorem nil_service_panics:
  assumes "readDocuments env manifestPath = Inr docs"
    and "collectManifestObjects \<lparr>crds = [], mutHooks = [], valHooks = []\<rparr> docs = Inr ret"
    and "d \<in> set docs" and "asGeneric d = Inr g"
    and "Kind g = ''MutatingWebhookConfiguration'' \<and> asMutHook d = Inr hook
         \<or> Kind g = ''ValidatingWebhookConfiguration'' \<and> asValHook d = Inr hook"
    and "wh \<in> set (Webhooks hook)" and "Service (ClientConfig wh) = None"
  shows "readAndAdaptManifestObjects env manifestPath pki u = Panic"
proof -
  from assms(2-5) have "hook \<in> set (mutHooks ret) \<union> set (valHooks ret)"
    by (auto dest: collect_mutHooks collect_valHooks)
  then have "adaptManifestObjects pki u ret = Panic"
    using assms(6,7) by (rule adaptManifestObjects_nil_service)
  with assms(1,2) show ?thesis
    by (simp add: readAndAdaptManifestObjects_def)
qed

theorem nil_service_panics_witness:
  "readAndAdaptManifestObjects
     \<lparr>readDocuments = \<lambda>path. Inr
        [\<lparr>asGeneric = Inr \<lparr>Kind = ''ValidatingWebhookConfiguration'',
                             APIVersion = ''admissionregistration.k8s.io/v1'',
                             meta_Name = ''validating''\<rparr>,
          asCRD = Inl (External ''not a CRD''),
          asMutHook = Inl (External ''not decoded''),
          asValHook = Inr \<lparr>hook_Name = ''validating'', hook_ResourceVersion = [],
            Webhooks = [\<lparr>wh_Name = ''validation.cluster.x-k8s.io'',
              ClientConfig = \<lparr>URL = Some ''https://example.org/validate'', Service = None,
                              CABundle = []\<rparr>\<rparr>]\<rparr>\<rparr>],
      newClient = \<lambda>kubeConfig. None,
      apiGet = \<lambda>n k name. Inl NotFound,
      apiCreate = \<lambda>n obj. None,
      apiUpdate = \<lambda>n obj. None\<rparr>
     ''components.yaml'' \<lparr>dir = ''ca'', caData = ''PEM''\<rparr>
     \<lparr>host = ''127.0.0.1'', webhookPort = 9443, healthPort = 9440\<rparr>
   = Panic"
  by (rule nil_service_panics
      [where docs = "[\<lparr>asGeneric = Inr \<lparr>Kind = ''ValidatingWebhookConfiguration'',
                             APIVersion = ''admissionregistration.k8s.io/v1'',
                             meta_Name = ''validating''\<rparr>,
          asCRD = Inl (External ''not a CRD''),
          asMutHook = Inl (External ''not decoded''),
          asValHook = Inr \<lparr>hook_Name = ''validating'', hook_ResourceVersion = [],
            Webhooks = [\<lparr>wh_Name = ''validation.cluster.x-k8s.io'',
              ClientConfig = \<lparr>URL = Some ''https://example.org/validate'', Service = None,
                              CABundle = []\<rparr>\<rparr>]\<rparr>\<rparr>]"]) (simp, simp, simp, simp, simp, simp, simp)

subsection \<open>Unsupported versions\<close>

text \<open>
  Claim C7: when the manifest holds a fragment of one of the three managed kinds whose
  \<^verbatim>\<open>apiVersion\<close> is not the supported one, \<^verbatim>\<open>readAndAdaptManifestObjects\<close> returns an
  error, and \<^verbatim>\<open>createManifestObjects\<close> (whose client was built) returns that error wrapped,
  having made no call to the API server. The error is the \<^verbatim>\<open>only v1 is supported\<close> error
  of such a fragment, unless a fragment before it could not be decoded, whose decoding
  error it then is.
\<close>

theorem unsupported_apiVersion_rejected:
  assumes "readDocuments env manifestPath = Inr docs" and "newClient env kubeConfig = None"
    and "d \<in> set docs" and "asGeneric d = Inr g" and "unsupportedVersion g"
  shows "\<exists>err. readAndAdaptManifestObjects env manifestPath pki u = Return (Inl err)
           \<and> createManifestObjects env polls manifestPath kubeConfig pki u
               = (Return (Some (Wrap ''unable to get provider crds'' err)), [])
           \<and> ((\<exists>d' \<in> set docs. \<exists>g'. asGeneric d' = Inr g' \<and> unsupportedVersion g'
                  \<and> err = versionError g')
                \<or> (\<exists>d' \<in> set docs. yamlError d' err))"
proof -
  from collect_unsupported[OF assms(3,4,5)] obtain err
    where err: "collectManifestObjects \<lparr>crds = [], mutHooks = [], valHooks = []\<rparr> docs = Inl err"
    by blast
  from err assms(1) have 1: "readAndAdaptManifestObjects env manifestPath pki u = Return (Inl err)"
    by (simp add: readAndAdaptManifestObjects_def)
  from 1 assms(2) have 2: "createManifestObjects env polls manifestPath kubeConfig pki u
      = (Return (Some (Wrap ''unable to get provider crds'' err)), [])"
    by (simp add: createManifestObjects_def)
  from collect_error_cases[OF err] have 3:
    "(\<exists>d' \<in> set docs. \<exists>g'. asGeneric d' = Inr g' \<and> unsupportedVersion g' \<and> err = versionError g')
     \<or> (\<exists>d' \<in> set docs. yamlError d' err)"
    by blast
  from 1 2 3 show ?thesis by blast
qed

theorem unsupported_apiVersion_rejected_witness:
  "createManifestObjects
     \<lparr>readDocuments = \<lambda>path. Inr
        [\<lparr>asGeneric = Inr \<lparr>Kind = ''CustomResourceDefinition'',
                             APIVersion = ''apiextensions.k8s.io/v1beta1'',
                             meta_Name = ''clusters.cluster.x-k8s.io''\<rparr>,
          asCRD = Inr \<lparr>crd_Name = ''clusters.cluster.x-k8s.io'', crd_ResourceVersion = [],
                       Conversion = None\<rparr>,
          asMutHook = Inl (External ''not decoded''),
          asValHook = Inl (External ''not decoded'')\<rparr>],
      newClient = \<lambda>kubeConfig. None,
      apiGet = \<lambda>n k name. Inl NotFound,
      apiCreate = \<lambda>n obj. None,
      apiUpdate = \<lambda>n obj. None\<rparr>
     3 ''components.yaml'' ''kubeconfig'' \<lparr>dir = ''ca'', caData = ''PEM''\<rparr>
     \<lparr>host = ''127.0.0.1'', webhookPort = 9443, healthPort = 9440\<rparr>
   = (Return (Some (Wrap ''unable to get provider crds''
        (Errorf ''only v1 is supported right now for CustomResourceDefinition (name: clusters.cluster.x-k8s.io)''))), [])"
proof -
  let ?g = "\<lparr>Kind = ''CustomResourceDefinition'', APIVersion = ''apiextensions.k8s.io/v1beta1'',
             meta_Name = ''clusters.cluster.x-k8s.io''\<rparr>"
  let ?d = "\<lparr>asGeneric = Inr ?g,
          asCRD = Inr \<lparr>crd_Name = ''clusters.cluster.x-k8s.io'', crd_ResourceVersion = [],
                       Conversion = None\<rparr>,
          asMutHook = Inl (External ''not decoded''),
          asValHook = Inl (External ''not decoded'')\<rparr>"
  let ?env = "\<lparr>readDocuments = \<lambda>path. Inr [?d],
      newClient = \<lambda>kubeConfig. None,
      apiGet = \<lambda>n k name. Inl NotFound,
      apiCreate = \<lambda>n obj. None,
      apiUpdate = \<lambda>n obj. None\<rparr>"
  have h1: "readDocuments ?env ''components.yaml'' = Inr [?d]" by simp
  have h2: "newClient ?env ''kubeconfig'' = None" by simp
  have h3: "?d \<in> set [?d]" by simp
  have h4: "asGeneric ?d = Inr ?g" by simp
  have h5: "unsupportedVersion ?g" by (simp add: unsupportedVersion_def)
  from unsupported_apiVersion_rejected[OF h1 h2 h3 h4 h5, where polls = 3
      and pki = "\<lparr>dir = ''ca'', caData = ''PEM''\<rparr>"
      and u = "\<lparr>host = ''127.0.0.1'', webhookPort = 9443, healthPort = 9440\<rparr>"]
  show ?thesis
    by (auto simp: versionError_def yamlError_def)
qed

subsection \<open>The conversion of a CRD\<close>

text \<open>
  Claim C6 says that a CRD fragment that declares a conversion keeps it. It does not: a
  CRD that declares a webhook conversion through an in-cluster service comes out with the
  local URL, the CA data of the provider and the review versions \<^verbatim>\<open>v1\<close>, \<^verbatim>\<open>v1beta1\<close>.
\<close>

theorem declared_conversion_not_kept:
  "adaptCRDs \<lparr>dir = ''ca'', caData = ''PEM''\<rparr>
     \<lparr>host = ''127.0.0.1'', webhookPort = 9443, healthPort = 9440\<rparr>
     [\<lparr>crd_Name = ''clusters.cluster.x-k8s.io'', crd_ResourceVersion = [],
       Conversion = Some \<lparr>Strategy = ''Webhook'',
         conv_Webhook = Some
           \<lparr>conv_ClientConfig = Some \<lparr>URL = None,
              Service = Some \<lparr>sr_Namespace = ''capi-system'', sr_Name = ''capi-webhook-service'',
                              sr_Path = Some ''/convert''\<rparr>,
              CABundle = ''Cg==''\<rparr>,
            ConversionReviewVersions = [''v1beta1'']\<rparr>\<rparr>\<rparr>]
   = Return
     [\<lparr>crd_Name = ''clusters.cluster.x-k8s.io'', crd_ResourceVersion = [],
       Conversion = Some \<lparr>Strategy = ''Webhook'',
         conv_Webhook = Some
           \<lparr>conv_ClientConfig = Some \<lparr>URL = Some ''https://127.0.0.1:9443/convert'',
              Service = None, CABundle = ''PEM''\<rparr>,
            ConversionReviewVersions = [''v1'', ''v1beta1'']\<rparr>\<rparr>\<rparr>]"
  by (simp add: adaptCRD_def localServingUrl_def webhookHostPort_def JoinHostPort_def sprintf_d_def
      string_of_nat.simps)

text \<open>
  Claim C6, amended: every CRD fragment that declares no conversion, or a conversion
  with a webhook section, gets the strategy \<^verbatim>\<open>Webhook\<close> with the client config
  \<^verbatim>\<open>https://<webhook host:port>/convert\<close>, the CA data of the provider, no service
  reference, and the review versions \<^verbatim>\<open>v1\<close>, \<^verbatim>\<open>v1beta1\<close>; whatever conversion it
  declared is overwritten.
\<close>

theorem adaptCRDs_local:
  assumes "\<forall>crd \<in> set cs. Conversion crd = None \<or> (\<exists>c w. Conversion crd = Some c \<and> conv_Webhook c = Some w)"
  shows "adaptCRDs pki u cs =
     Return (map (\<lambda>crd. crd\<lparr>Conversion := Some
       \<lparr>Strategy = ''Webhook'',
        conv_Webhook = Some
          \<lparr>conv_ClientConfig = Some \<lparr>URL = Some (''https://'' @ webhookHostPort u @ ''/convert''),
                                      Service = None, CABundle = caData pki\<rparr>,
           ConversionReviewVersions = [''v1'', ''v1beta1'']\<rparr>\<rparr>\<rparr>) cs)"
  using assms
  by (induction cs) (auto simp: adaptCRD_def localServingUrl_def)

theorem adaptCRDs_local_witness:
  "adaptCRDs \<lparr>dir = ''ca'', caData = ''PEM''\<rparr>
     \<lparr>host = ''::1'', webhookPort = 9443, healthPort = 9440\<rparr>
     [\<lparr>crd_Name = ''machines.cluster.x-k8s.io'', crd_ResourceVersion = [], Conversion = None\<rparr>,
      \<lparr>crd_Name = ''clusters.cluster.x-k8s.io'', crd_ResourceVersion = [],
       Conversion = Some \<lparr>Strategy = ''Webhook'',
         conv_Webhook = Some
           \<lparr>conv_ClientConfig = Some \<lparr>URL = None,
              Service = Some \<lparr>sr_Namespace = ''capi-system'', sr_Name = ''capi-webhook-service'',
                              sr_Path = Some ''/convert''\<rparr>,
              CABundle = ''Cg==''\<rparr>,
            ConversionReviewVersions = [''v1beta1'']\<rparr>\<rparr>\<rparr>]
   = Return
     [\<lparr>crd_Name = ''machines.cluster.x-k8s.io'', crd_ResourceVersion = [],
       Conversion = Some \<lparr>Strategy = ''Webhook'',
         conv_Webhook = Some
           \<lparr>conv_ClientConfig = Some \<lparr>URL = Some ''https://[::1]:9443/convert'',
              Service = None, CABundle = ''PEM''\<rparr>,
            ConversionReviewVersions = [''v1'', ''v1beta1'']\<rparr>\<rparr>\<rparr>,
      \<lparr>crd_Name = ''clusters.cluster.x-k8s.io'', crd_ResourceVersion = [],
       Conversion = Some \<lparr>Strategy = ''Webhook'',
         conv_Webhook = Some
           \<lparr>conv_ClientConfig = Some \<lparr>URL = Some ''https://[::1]:9443/convert'',
              Service = None, CABundle = ''PEM''\<rparr>,
            ConversionReviewVersions = [''v1'', ''v1beta1'']\<rparr>\<rparr>\<rparr>]"
  using adaptCRDs_local
    [of "[\<lparr>crd_Name = ''machines.cluster.x-k8s.io'', crd_ResourceVersion = [], Conversion = None\<rparr>,
      \<lparr>crd_Name = ''clusters.cluster.x-k8s.io'', crd_ResourceVersion = [],
       Conversion = Some \<lparr>Strategy = ''Webhook'',
         conv_Webhook = Some
           \<lparr>conv_ClientConfig = Some \<lparr>URL = None,
              Service = Some \<lparr>sr_Namespace = ''capi-system'', sr_Name = ''capi-webhook-service'',
                              sr_Path = Some ''/convert''\<rparr>,
              CABundle = ''Cg==''\<rparr>,
            ConversionReviewVersions = [''v1beta1'']\<rparr>\<rparr>\<rparr>]"
       "\<lparr>dir = ''ca'', caData = ''PEM''\<rparr>"
       "\<lparr>host = ''::1'', webhookPort = 9443, healthPort = 9440\<rparr>"]
  by (simp add: webhookHostPort_def JoinHostPort_def sprintf_d_def string_of_nat.simps)

subsection \<open>Merging credentials\<close>

text \<open>The two loops of \<^verbatim>\<open>merge\<close> for one entry amount to one map assignment.\<close>

lemma scanExisting_eq:
  "scanExisting k v names (m, b) =
     (if k \<in> set names then (AList.update k v m, False) else (m, b))"
  by (induction names arbitrary: m b) auto

lemma mergeEntry_eq: "mergeEntry k v m = AList.update k v m"
  by (simp add: mergeEntry_def scanExisting_eq)

lemma mergeMap_single: "mergeMap [(k, v)] m = AList.update k v m"
  by (simp add: mergeEntry_eq)

lemma filter_key_update:
  "distinct (map fst m) \<Longrightarrow> filter (\<lambda>entry. fst entry = k) (AList.update k v m) = [(k, v)]"
proof (induction m)
  case Nil
  then show ?case by simp
next
  case (Cons p m)
  show ?case
  proof (cases "fst p = k")
    case True
    with Cons.prems have "k \<notin> fst ` set m" by auto
    then have "filter (\<lambda>entry. fst entry = k) m = []"
      by (auto simp: filter_empty_conv)
    with True show ?thesis by simp
  next
    case False
    with Cons show ?thesis by simp
  qed
qed

lemma filter_other_update:
  "filter (\<lambda>entry. fst entry \<noteq> k) (AList.update k v m) = filter (\<lambda>entry. fst entry \<noteq> k) m"
  by (induction m) auto

lemma create_Inr:
  "create ca n url = Inr new \<Longrightarrow>
     \<exists>certBytes keyBytes. NewClientCert ca (userKey n) [systemPrivilegedGroup] = Inr (certBytes, keyBytes)
       \<and> new = \<lparr>Clusters = [(clusterKey n, \<lparr>Server = url, CertificateAuthorityData = CertBytes ca\<rparr>)],
               AuthInfos = [(userKey n, \<lparr>ClientKeyData = keyBytes, ClientCertificateData = certBytes\<rparr>)],
               Contexts = [(contextKey n, \<lparr>ctx_Cluster = clusterKey n, ctx_AuthInfo = userKey n\<rparr>)],
               CurrentContext = contextKey n\<rparr>"
  by (auto simp: create_def split: sum.splits)

lemma merge_created:
  "create ca n url = Inr new \<Longrightarrow>
     merge new existing =
       \<lparr>Clusters = AList.update (clusterKey n) (snd (hd (Clusters new))) (Clusters existing),
        AuthInfos = AList.update (userKey n) (snd (hd (AuthInfos new))) (AuthInfos existing),
        Contexts = AList.update (contextKey n) (snd (hd (Contexts new))) (Contexts existing),
        CurrentContext = contextKey n\<rparr>"
  by (auto dest!: create_Inr simp: merge_def mergeEntry_eq)

lemma wf_merge_created:
  "create ca n url = Inr new \<Longrightarrow> wf_Config existing \<Longrightarrow> wf_Config (merge new existing)"
  by (simp add: merge_created wf_Config_def distinct_update)

text \<open>
  Claim C4: merging, into any existing config, two configs created for the same cluster
  name is an upsert by key. Each of the three derived keys (cluster, user with the suffix
  \<^verbatim>\<open>-admin\<close>, context) holds exactly one entry, that of the second merge; each map of the
  result is the map of the existing config with that one key assigned, so every entry under
  another key is the existing one; the current context is the context key; the result is
  what merging the second config alone gives, and merging it once more changes nothing.
\<close>

theorem merge_same_name_twice:
  assumes "wf_Config existing"
    and "create ca1 clusterName url1 = Inr new1"
    and "create ca2 clusterName url2 = Inr new2"
  shows "filter (\<lambda>entry. fst entry = clusterKey clusterName)
             (Clusters (merge new2 (merge new1 existing))) = Clusters new2
       \<and> filter (\<lambda>entry. fst entry = userKey clusterName)
             (AuthInfos (merge new2 (merge new1 existing))) = AuthInfos new2
       \<and> filter (\<lambda>entry. fst entry = contextKey clusterName)
             (Contexts (merge new2 (merge new1 existing))) = Contexts new2
       \<and> Clusters new2 = [(clusterKey clusterName,
                             \<lparr>Server = url2, CertificateAuthorityData = CertBytes ca2\<rparr>)]
       \<and> userKey clusterName = clusterKey clusterName @ ''-admin''
       \<and> contextKey clusterName = clusterKey clusterName
       \<and> wf_Config (merge new2 (merge new1 existing))
       \<and> merge new2 (merge new2 (merge new1 existing)) = merge new2 (merge new1 existing)
       \<and> Clusters (merge new2 (merge new1 existing))
           = AList.update (clusterKey clusterName)
               \<lparr>Server = url2, CertificateAuthorityData = CertBytes ca2\<rparr> (Clusters existing)
       \<and> (\<exists>certBytes keyBytes.
             NewClientCert ca2 (userKey clusterName) [systemPrivilegedGroup] = Inr (certBytes, keyBytes)
             \<and> AuthInfos (merge new2 (merge new1 existing))
                 = AList.update (userKey clusterName)
                     \<lparr>ClientKeyData = keyBytes, ClientCertificateData = certBytes\<rparr>
                     (AuthInfos existing))
       \<and> Contexts (merge new2 (merge new1 existing))
           = AList.update (contextKey clusterName)
               \<lparr>ctx_Cluster = clusterKey clusterName, ctx_AuthInfo = userKey clusterName\<rparr>
               (Contexts existing)
       \<and> CurrentContext (merge new2 (merge new1 existing)) = contextKey clusterName
       \<and> filter (\<lambda>entry. fst entry \<noteq> clusterKey clusterName)
             (Clusters (merge new2 (merge new1 existing)))
           = filter (\<lambda>entry. fst entry \<noteq> clusterKey clusterName) (Clusters existing)
       \<and> filter (\<lambda>entry. fst entry \<noteq> userKey clusterName)
             (AuthInfos (merge new2 (merge new1 existing)))
           = filter (\<lambda>entry. fst entry \<noteq> userKey clusterName) (AuthInfos existing)
       \<and> filter (\<lambda>entry. fst entry \<noteq> contextKey clusterName)
             (Contexts (merge new2 (merge new1 existing)))
           = filter (\<lambda>entry. fst entry \<noteq> contextKey clusterName) (Contexts existing)
       \<and> merge new2 (merge new1 existing) = merge new2 existing"
proof -
  let ?c1 = "merge new1 existing"
  have wf1: "wf_Config ?c1" using assms(2,1) by (rule wf_merge_created)
  from create_Inr[OF assms(2)] obtain certBytes1 keyBytes1 where
    new1: "new1 = \<lparr>Clusters = [(clusterKey clusterName, \<lparr>Server = url1, CertificateAuthorityData = CertBytes ca1\<rparr>)],
               AuthInfos = [(userKey clusterName, \<lparr>ClientKeyData = keyBytes1, ClientCertificateData = certBytes1\<rparr>)],
               Contexts = [(contextKey clusterName, \<lparr>ctx_Cluster = clusterKey clusterName, ctx_AuthInfo = userKey clusterName\<rparr>)],
               CurrentContext = contextKey clusterName\<rparr>"
    by blast
  from create_Inr[OF assms(3)] obtain certBytes keyBytes where
    cert2: "NewClientCert ca2 (userKey clusterName) [systemPrivilegedGroup] = Inr (certBytes, keyBytes)" and
    new2: "new2 = \<lparr>Clusters = [(clusterKey clusterName, \<lparr>Server = url2, CertificateAuthorityData = CertBytes ca2\<rparr>)],
               AuthInfos = [(userKey clusterName, \<lparr>ClientKeyData = keyBytes, ClientCertificateData = certBytes\<rparr>)],
               Contexts = [(contextKey clusterName, \<lparr>ctx_Cluster = clusterKey clusterName, ctx_AuthInfo = userKey clusterName\<rparr>)],
               CurrentContext = contextKey clusterName\<rparr>"
    by blast
  have a: "filter (\<lambda>entry. fst entry = clusterKey clusterName) (Clusters (merge new2 ?c1)) = Clusters new2"
    using wf1 by (simp add: new2 merge_def mergeEntry_eq filter_key_update wf_Config_def)
  have b: "filter (\<lambda>entry. fst entry = userKey clusterName) (AuthInfos (merge new2 ?c1)) = AuthInfos new2"
    using wf1 by (simp add: new2 merge_def mergeEntry_eq filter_key_update wf_Config_def)
  have c: "filter (\<lambda>entry. fst entry = contextKey clusterName) (Contexts (merge new2 ?c1)) = Contexts new2"
    using wf1 by (simp add: new2 merge_def mergeEntry_eq filter_key_update wf_Config_def)
  have d: "Clusters new2 = [(clusterKey clusterName, \<lparr>Server = url2, CertificateAuthorityData = CertBytes ca2\<rparr>)]"
    by (simp add: new2)
  have e: "userKey clusterName = clusterKey clusterName @ ''-admin''"
    by (simp add: userKey_def clusterKey_def)
  have f: "contextKey clusterName = clusterKey clusterName"
    by (simp add: contextKey_def clusterKey_def)
  have g: "wf_Config (merge new2 ?c1)" using assms(3) wf1 by (rule wf_merge_created)
  have h: "merge new2 (merge new2 ?c1) = merge new2 ?c1"
    by (simp add: new2 merge_def mergeEntry_eq)
  have whole: "merge new2 ?c1 =
      \<lparr>Clusters = AList.update (clusterKey clusterName)
                    \<lparr>Server = url2, CertificateAuthorityData = CertBytes ca2\<rparr> (Clusters existing),
       AuthInfos = AList.update (userKey clusterName)
                     \<lparr>ClientKeyData = keyBytes, ClientCertificateData = certBytes\<rparr> (AuthInfos existing),
       Contexts = AList.update (contextKey clusterName)
                    \<lparr>ctx_Cluster = clusterKey clusterName, ctx_AuthInfo = userKey clusterName\<rparr>
                    (Contexts existing),
       CurrentContext = contextKey clusterName\<rparr>"
    by (simp add: new1 new2 merge_def mergeEntry_eq)
  have i: "Clusters (merge new2 ?c1) = AList.update (clusterKey clusterName)
               \<lparr>Server = url2, CertificateAuthorityData = CertBytes ca2\<rparr> (Clusters existing)"
    by (simp add: whole)
  have j: "\<exists>certBytes keyBytes.
             NewClientCert ca2 (userKey clusterName) [systemPrivilegedGroup] = Inr (certBytes, keyBytes)
             \<and> AuthInfos (merge new2 ?c1)
                 = AList.update (userKey clusterName)
                     \<lparr>ClientKeyData = keyBytes, ClientCertificateData = certBytes\<rparr>
                     (AuthInfos existing)"
    using cert2 by (simp add: whole)
  have k: "Contexts (merge new2 ?c1) = AList.update (contextKey clusterName)
               \<lparr>ctx_Cluster = clusterKey clusterName, ctx_AuthInfo = userKey clusterName\<rparr>
               (Contexts existing)"
    by (simp add: whole)
  have l: "CurrentContext (merge new2 ?c1) = contextKey clusterName"
    by (simp add: whole)
  have m: "filter (\<lambda>entry. fst entry \<noteq> clusterKey clusterName) (Clusters (merge new2 ?c1))
           = filter (\<lambda>entry. fst entry \<noteq> clusterKey clusterName) (Clusters existing)"
    by (simp add: whole filter_other_update)
  have n: "filter (\<lambda>entry. fst entry \<noteq> userKey clusterName) (AuthInfos (merge new2 ?c1))
           = filter (\<lambda>entry. fst entry \<noteq> userKey clusterName) (AuthInfos existing)"
    by (simp add: whole filter_other_update)
  have o: "filter (\<lambda>entry. fst entry \<noteq> contextKey clusterName) (Contexts (merge new2 ?c1))
           = filter (\<lambda>entry. fst entry \<noteq> contextKey clusterName) (Contexts existing)"
    by (simp add: whole filter_other_update)
  have p: "merge new2 ?c1 = merge new2 existing"
    by (simp add: whole) (simp add: new2 merge_def mergeEntry_eq)
  show ?thesis
    by (intro conjI a b c d e f g h i j k l m n o p)
qed

theorem merge_same_name_twice_witness:
  "filter (\<lambda>entry. fst entry = ''kBB-8-bootstrap'')
     (Clusters (merge
        \<lparr>Clusters = [(''kBB-8-bootstrap'', \<lparr>Server = ''https://127.0.0.1:6444'', CertificateAuthorityData = ''CA2''\<rparr>)],
         AuthInfos = [(''kBB-8-bootstrap-admin'', \<lparr>ClientKeyData = ''key2'', ClientCertificateData = ''cert2''\<rparr>)],
         Contexts = [(''kBB-8-bootstrap'', \<lparr>ctx_Cluster = ''kBB-8-bootstrap'', ctx_AuthInfo = ''kBB-8-bootstrap-admin''\<rparr>)],
         CurrentContext = ''kBB-8-bootstrap''\<rparr>
        (merge
          \<lparr>Clusters = [(''kBB-8-bootstrap'', \<lparr>Server = ''https://127.0.0.1:6443'', CertificateAuthorityData = ''CA1''\<rparr>)],
           AuthInfos = [(''kBB-8-bootstrap-admin'', \<lparr>ClientKeyData = ''key1'', ClientCertificateData = ''cert1''\<rparr>)],
           Contexts = [(''kBB-8-bootstrap'', \<lparr>ctx_Cluster = ''kBB-8-bootstrap'', ctx_AuthInfo = ''kBB-8-bootstrap-admin''\<rparr>)],
           CurrentContext = ''kBB-8-bootstrap''\<rparr>
          \<lparr>Clusters = [(''prod'', \<lparr>Server = ''https://prod:6443'', CertificateAuthorityData = ''P''\<rparr>)],
           AuthInfos = [(''prod-admin'', \<lparr>ClientKeyData = ''pk'', ClientCertificateData = ''pc''\<rparr>)],
           Contexts = [(''prod'', \<lparr>ctx_Cluster = ''prod'', ctx_AuthInfo = ''prod-admin''\<rparr>)],
           CurrentContext = ''prod''\<rparr>)))
   = [(''kBB-8-bootstrap'', \<lparr>Server = ''https://127.0.0.1:6444'', CertificateAuthorityData = ''CA2''\<rparr>)]
   \<and> merge
        \<lparr>Clusters = [(''kBB-8-bootstrap'', \<lparr>Server = ''https://127.0.0.1:6444'', CertificateAuthorityData = ''CA2''\<rparr>)],
         AuthInfos = [(''kBB-8-bootstrap-admin'', \<lparr>ClientKeyData = ''key2'', ClientCertificateData = ''cert2''\<rparr>)],
         Contexts = [(''kBB-8-bootstrap'', \<lparr>ctx_Cluster = ''kBB-8-bootstrap'', ctx_AuthInfo = ''kBB-8-bootstrap-admin''\<rparr>)],
         CurrentContext = ''kBB-8-bootstrap''\<rparr>
        (merge
          \<lparr>Clusters = [(''kBB-8-bootstrap'', \<lparr>Server = ''https://127.0.0.1:6443'', CertificateAuthorityData = ''CA1''\<rparr>)],
           AuthInfos = [(''kBB-8-bootstrap-admin'', \<lparr>ClientKeyData = ''key1'', ClientCertificateData = ''cert1''\<rparr>)],
           Contexts = [(''kBB-8-bootstrap'', \<lparr>ctx_Cluster = ''kBB-8-bootstrap'', ctx_AuthInfo = ''kBB-8-bootstrap-admin''\<rparr>)],
           CurrentContext = ''kBB-8-bootstrap''\<rparr>
          \<lparr>Clusters = [(''prod'', \<lparr>Server = ''https://prod:6443'', CertificateAuthorityData = ''P''\<rparr>)],
           AuthInfos = [(''prod-admin'', \<lparr>ClientKeyData = ''pk'', ClientCertificateData = ''pc''\<rparr>)],
           Contexts = [(''prod'', \<lparr>ctx_Cluster = ''prod'', ctx_AuthInfo = ''prod-admin''\<rparr>)],
           CurrentContext = ''prod''\<rparr>)
     = \<lparr>Clusters = [(''prod'', \<lparr>Server = ''https://prod:6443'', CertificateAuthorityData = ''P''\<rparr>),
                     (''kBB-8-bootstrap'', \<lparr>Server = ''https://127.0.0.1:6444'', CertificateAuthorityData = ''CA2''\<rparr>)],
        AuthInfos = [(''prod-admin'', \<lparr>ClientKeyData = ''pk'', ClientCertificateData = ''pc''\<rparr>),
                     (''kBB-8-bootstrap-admin'', \<lparr>ClientKeyData = ''key2'', ClientCertificateData = ''cert2''\<rparr>)],
        Contexts = [(''prod'', \<lparr>ctx_Cluster = ''prod'', ctx_AuthInfo = ''prod-admin''\<rparr>),
                    (''kBB-8-bootstrap'', \<lparr>ctx_Cluster = ''kBB-8-bootstrap'', ctx_AuthInfo = ''kBB-8-bootstrap-admin''\<rparr>)],
        CurrentContext = ''kBB-8-bootstrap''\<rparr>"
proof -
  let ?existing = "\<lparr>Clusters = [(''prod'', \<lparr>Server = ''https://prod:6443'', CertificateAuthorityData = ''P''\<rparr>)],
           AuthInfos = [(''prod-admin'', \<lparr>ClientKeyData = ''pk'', ClientCertificateData = ''pc''\<rparr>)],
           Contexts = [(''prod'', \<lparr>ctx_Cluster = ''prod'', ctx_AuthInfo = ''prod-admin''\<rparr>)],
           CurrentContext = ''prod''\<rparr>"
  let ?ca1 = "\<lparr>CertBytes = ''CA1'', NewClientCert = \<lambda>name groups. Inr (''cert1'', ''key1'')\<rparr>"
  let ?ca2 = "\<lparr>CertBytes = ''CA2'', NewClientCert = \<lambda>name groups. Inr (''cert2'', ''key2'')\<rparr>"
  let ?new1 = "\<lparr>Clusters = [(''kBB-8-bootstrap'', \<lparr>Server = ''https://127.0.0.1:6443'', CertificateAuthorityData = ''CA1''\<rparr>)],
           AuthInfos = [(''kBB-8-bootstrap-admin'', \<lparr>ClientKeyData = ''key1'', ClientCertificateData = ''cert1''\<rparr>)],
           Contexts = [(''kBB-8-bootstrap'', \<lparr>ctx_Cluster = ''kBB-8-bootstrap'', ctx_AuthInfo = ''kBB-8-bootstrap-admin''\<rparr>)],
           CurrentContext = ''kBB-8-bootstrap''\<rparr>"
  let ?new2 = "\<lparr>Clusters = [(''kBB-8-bootstrap'', \<lparr>Server = ''https://127.0.0.1:6444'', CertificateAuthorityData = ''CA2''\<rparr>)],
         AuthInfos = [(''kBB-8-bootstrap-admin'', \<lparr>ClientKeyData = ''key2'', ClientCertificateData = ''cert2''\<rparr>)],
         Contexts = [(''kBB-8-bootstrap'', \<lparr>ctx_Cluster = ''kBB-8-bootstrap'', ctx_AuthInfo = ''kBB-8-bootstrap-admin''\<rparr>)],
         CurrentContext = ''kBB-8-bootstrap''\<rparr>"
  have h1: "wf_Config ?existing" by (simp add: wf_Config_def)
  have h2: "create ?ca1 ''bootstrap'' ''https://127.0.0.1:6443'' = Inr ?new1"
    by (simp add: create_def clusterKey_def userKey_def contextKey_def)
  have h3: "create ?ca2 ''bootstrap'' ''https://127.0.0.1:6444'' = Inr ?new2"
    by (simp add: create_def clusterKey_def userKey_def contextKey_def)
  note inst = merge_same_name_twice[OF h1 h2 h3]
  from inst have "filter (\<lambda>entry. fst entry = clusterKey ''bootstrap'')
      (Clusters (merge ?new2 (merge ?new1 ?existing))) = Clusters ?new2"
    by (elim conjE) assumption
  then have key: "filter (\<lambda>entry. fst entry = ''kBB-8-bootstrap'')
      (Clusters (merge ?new2 (merge ?new1 ?existing)))
      = [(''kBB-8-bootstrap'', \<lparr>Server = ''https://127.0.0.1:6444'', CertificateAuthorityData = ''CA2''\<rparr>)]"
    by (simp add: clusterKey_def)
  from inst have "Clusters (merge ?new2 (merge ?new1 ?existing))
      = AList.update (clusterKey ''bootstrap'')
          \<lparr>Server = ''https://127.0.0.1:6444'', CertificateAuthorityData = CertBytes ?ca2\<rparr>
          (Clusters ?existing)"
    by (elim conjE) assumption
  then have cl: "Clusters (merge ?new2 (merge ?new1 ?existing))
      = [(''prod'', \<lparr>Server = ''https://prod:6443'', CertificateAuthorityData = ''P''\<rparr>),
         (''kBB-8-bootstrap'', \<lparr>Server = ''https://127.0.0.1:6444'', CertificateAuthorityData = ''CA2''\<rparr>)]"
    by (simp add: clusterKey_def)
  from inst have "\<exists>certBytes keyBytes.
      NewClientCert ?ca2 (userKey ''bootstrap'') [systemPrivilegedGroup] = Inr (certBytes, keyBytes)
      \<and> AuthInfos (merge ?new2 (merge ?new1 ?existing))
          = AList.update (userKey ''bootstrap'')
              \<lparr>ClientKeyData = keyBytes, ClientCertificateData = certBytes\<rparr> (AuthInfos ?existing)"
    by (elim conjE) assumption
  then have au: "AuthInfos (merge ?new2 (merge ?new1 ?existing))
      = [(''prod-admin'', \<lparr>ClientKeyData = ''pk'', ClientCertificateData = ''pc''\<rparr>),
         (''kBB-8-bootstrap-admin'', \<lparr>ClientKeyData = ''key2'', ClientCertificateData = ''cert2''\<rparr>)]"
    by (auto simp: userKey_def)
  from inst have "Contexts (merge ?new2 (merge ?new1 ?existing))
      = AList.update (contextKey ''bootstrap'')
          \<lparr>ctx_Cluster = clusterKey ''bootstrap'', ctx_AuthInfo = userKey ''bootstrap''\<rparr>
          (Contexts ?existing)"
    by (elim conjE) assumption
  then have co: "Contexts (merge ?new2 (merge ?new1 ?existing))
      = [(''prod'', \<lparr>ctx_Cluster = ''prod'', ctx_AuthInfo = ''prod-admin''\<rparr>),
         (''kBB-8-bootstrap'', \<lparr>ctx_Cluster = ''kBB-8-bootstrap'', ctx_AuthInfo = ''kBB-8-bootstrap-admin''\<rparr>)]"
    by (simp add: clusterKey_def userKey_def contextKey_def)
  from inst have "CurrentContext (merge ?new2 (merge ?new1 ?existing)) = contextKey ''bootstrap''"
    by (elim conjE) assumption
  then have cu: "CurrentContext (merge ?new2 (merge ?new1 ?existing)) = ''kBB-8-bootstrap''"
    by (simp add: contextKey_def)
  have "merge ?new2 (merge ?new1 ?existing) =
      \<lparr>Clusters = Clusters (merge ?new2 (merge ?new1 ?existing)),
       AuthInfos = AuthInfos (merge ?new2 (merge ?new1 ?existing)),
       Contexts = Contexts (merge ?new2 (merge ?new1 ?existing)),
       CurrentContext = CurrentContext (merge ?new2 (merge ?new1 ?existing))\<rparr>"
    by simp
  with cl au co cu have whole: "merge ?new2 (merge ?new1 ?existing) =
      \<lparr>Clusters = [(''prod'', \<lparr>Server = ''https://prod:6443'', CertificateAuthorityData = ''P''\<rparr>),
                     (''kBB-8-bootstrap'', \<lparr>Server = ''https://127.0.0.1:6444'', CertificateAuthorityData = ''CA2''\<rparr>)],
        AuthInfos = [(''prod-admin'', \<lparr>ClientKeyData = ''pk'', ClientCertificateData = ''pc''\<rparr>),
                     (''kBB-8-bootstrap-admin'', \<lparr>ClientKeyData = ''key2'', ClientCertificateData = ''cert2''\<rparr>)],
        Contexts = [(''prod'', \<lparr>ctx_Cluster = ''prod'', ctx_AuthInfo = ''prod-admin''\<rparr>),
                    (''kBB-8-bootstrap'', \<lparr>ctx_Cluster = ''kBB-8-bootstrap'', ctx_AuthInfo = ''kBB-8-bootstrap-admin''\<rparr>)],
        CurrentContext = ''kBB-8-bootstrap''\<rparr>"
    by simp
  from key whole show ?thesis by (rule conjI)
qed

text \<open>
  Claim C9: when \<^verbatim>\<open>CreateOrMerge\<close> has loaded an existing config, created the new one
  and written the file, the file holds the merged config, in which every entry under a key
  other than the three derived keys is as it was, and whose current context is the context
  key of the merged entry, whatever the current context of the existing config was.
\<close>

theorem CreateOrMerge_frame:
  assumes "rulesLoad env (files w) explicitPath = Inr existing"
    and "create ca clusterName url = Inr new"
    and "opError env (WriteFile (defaultFilename env explicitPath)) = None"
  shows "CreateOrMerge env ca url clusterName explicitPath w =
           (Return (Inr (defaultFilename env explicitPath, contextKey clusterName)),
            w\<lparr>files := (files w)(defaultFilename env explicitPath \<mapsto> merge new existing),
              trace := trace w @ [WriteFile (defaultFilename env explicitPath)]\<rparr>)
         \<and> filter (\<lambda>entry. fst entry \<noteq> clusterKey clusterName) (Clusters (merge new existing))
             = filter (\<lambda>entry. fst entry \<noteq> clusterKey clusterName) (Clusters existing)
         \<and> filter (\<lambda>entry. fst entry \<noteq> userKey clusterName) (AuthInfos (merge new existing))
             = filter (\<lambda>entry. fst entry \<noteq> userKey clusterName) (AuthInfos existing)
         \<and> filter (\<lambda>entry. fst entry \<noteq> contextKey clusterName) (Contexts (merge new existing))
             = filter (\<lambda>entry. fst entry \<noteq> contextKey clusterName) (Contexts existing)
         \<and> CurrentContext (merge new existing) = contextKey clusterName"
proof -
  let ?merged = "merge new existing"
  have m: "?merged = \<lparr>Clusters = AList.update (clusterKey clusterName) (snd (hd (Clusters new))) (Clusters existing),
        AuthInfos = AList.update (userKey clusterName) (snd (hd (AuthInfos new))) (AuthInfos existing),
        Contexts = AList.update (contextKey clusterName) (snd (hd (Contexts new))) (Contexts existing),
        CurrentContext = contextKey clusterName\<rparr>"
    using assms(2) by (rule merge_created)
  have cur: "CurrentContext ?merged = contextKey clusterName" by (simp add: m)
  have run: "CreateOrMerge env ca url clusterName explicitPath w =
             (Return (Inr (defaultFilename env explicitPath, contextKey clusterName)),
              w\<lparr>files := (files w)(defaultFilename env explicitPath \<mapsto> ?merged),
                trace := trace w @ [WriteFile (defaultFilename env explicitPath)]\<rparr>)"
    using assms cur by (simp add: CreateOrMerge_def WriteToFile_def Let_def)
  have a: "filter (\<lambda>entry. fst entry \<noteq> clusterKey clusterName) (Clusters ?merged)
             = filter (\<lambda>entry. fst entry \<noteq> clusterKey clusterName) (Clusters existing)"
    by (simp add: m filter_other_update)
  have b: "filter (\<lambda>entry. fst entry \<noteq> userKey clusterName) (AuthInfos ?merged)
             = filter (\<lambda>entry. fst entry \<noteq> userKey clusterName) (AuthInfos existing)"
    by (simp add: m filter_other_update)
  have c: "filter (\<lambda>entry. fst entry \<noteq> contextKey clusterName) (Contexts ?merged)
             = filter (\<lambda>entry. fst entry \<noteq> contextKey clusterName) (Contexts existing)"
    by (simp add: m filter_other_update)
  from run cur a b c show ?thesis by simp
qed

theorem CreateOrMerge_frame_witness:
  "CreateOrMerge
     \<lparr>opError = \<lambda>ev. None, nilStateStop = Return None,
      loadingPrecedence = \<lambda>explicitPath. [''/home/user/.kube/config''],
      defaultFilename = \<lambda>explicitPath. ''/home/user/.kube/config'',
      rulesLoad = \<lambda>fs explicitPath.
        (case fs ''/home/user/.kube/config'' of None \<Rightarrow> Inl NotExist | Some c \<Rightarrow> Inr c)\<rparr>
     \<lparr>CertBytes = ''CA'', NewClientCert = \<lambda>name groups. Inr (''cert'', ''key'')\<rparr>
     ''https://127.0.0.1:6443'' ''bootstrap'' []
     \<lparr>files = [''/home/user/.kube/config'' \<mapsto>
        \<lparr>Clusters = [(''prod'', \<lparr>Server = ''https://prod:6443'', CertificateAuthorityData = ''P''\<rparr>)],
         AuthInfos = [(''prod-admin'', \<lparr>ClientKeyData = ''pk'', ClientCertificateData = ''pc''\<rparr>)],
         Contexts = [(''prod'', \<lparr>ctx_Cluster = ''prod'', ctx_AuthInfo = ''prod-admin''\<rparr>)],
         CurrentContext = ''prod''\<rparr>],
      trace = []\<rparr>
   = (Return (Inr (''/home/user/.kube/config'', ''kBB-8-bootstrap'')),
      \<lparr>files = [''/home/user/.kube/config'' \<mapsto>
        \<lparr>Clusters = [(''prod'', \<lparr>Server = ''https://prod:6443'', CertificateAuthorityData = ''P''\<rparr>),
                     (''kBB-8-bootstrap'', \<lparr>Server = ''https://127.0.0.1:6443'', CertificateAuthorityData = ''CA''\<rparr>)],
         AuthInfos = [(''prod-admin'', \<lparr>ClientKeyData = ''pk'', ClientCertificateData = ''pc''\<rparr>),
                      (''kBB-8-bootstrap-admin'', \<lparr>ClientKeyData = ''key'', ClientCertificateData = ''cert''\<rparr>)],
         Contexts = [(''prod'', \<lparr>ctx_Cluster = ''prod'', ctx_AuthInfo = ''prod-admin''\<rparr>),
                     (''kBB-8-bootstrap'', \<lparr>ctx_Cluster = ''kBB-8-bootstrap'',
                                             ctx_AuthInfo = ''kBB-8-bootstrap-admin''\<rparr>)],
         CurrentContext = ''kBB-8-bootstrap''\<rparr>],
       trace = [WriteFile ''/home/user/.kube/config'']\<rparr>)"
proof -
  let ?existing = "\<lparr>Clusters = [(''prod'', \<lparr>Server = ''https://prod:6443'', CertificateAuthorityData = ''P''\<rparr>)],
         AuthInfos = [(''prod-admin'', \<lparr>ClientKeyData = ''pk'', ClientCertificateData = ''pc''\<rparr>)],
         Contexts = [(''prod'', \<lparr>ctx_Cluster = ''prod'', ctx_AuthInfo = ''prod-admin''\<rparr>)],
         CurrentContext = ''prod''\<rparr>"
  let ?env = "\<lparr>opError = \<lambda>ev. None, nilStateStop = Return None,
      loadingPrecedence = \<lambda>explicitPath. [''/home/user/.kube/config''],
      defaultFilename = \<lambda>explicitPath. ''/home/user/.kube/config'',
      rulesLoad = \<lambda>fs explicitPath.
        (case fs ''/home/user/.kube/config'' of None \<Rightarrow> Inl NotExist | Some c \<Rightarrow> Inr c)\<rparr>"
  let ?ca = "\<lparr>CertBytes = ''CA'', NewClientCert = \<lambda>name groups. Inr (''cert'', ''key'')\<rparr>"
  let ?w = "\<lparr>files = [''/home/user/.kube/config'' \<mapsto> ?existing], trace = []\<rparr>"
  let ?new = "\<lparr>Clusters = [(''kBB-8-bootstrap'', \<lparr>Server = ''https://127.0.0.1:6443'', CertificateAuthorityData = ''CA''\<rparr>)],
         AuthInfos = [(''kBB-8-bootstrap-admin'', \<lparr>ClientKeyData = ''key'', ClientCertificateData = ''cert''\<rparr>)],
         Contexts = [(''kBB-8-bootstrap'', \<lparr>ctx_Cluster = ''kBB-8-bootstrap'', ctx_AuthInfo = ''kBB-8-bootstrap-admin''\<rparr>)],
         CurrentContext = ''kBB-8-bootstrap''\<rparr>"
  have h1: "rulesLoad ?env (files ?w) [] = Inr ?existing" by simp
  have h2: "create ?ca ''bootstrap'' ''https://127.0.0.1:6443'' = Inr ?new"
    by (simp add: create_def clusterKey_def userKey_def contextKey_def)
  have h3: "opError ?env (WriteFile (defaultFilename ?env [])) = None" by simp
  from CreateOrMerge_frame[OF h1 h2 h3] show ?thesis
    by (simp add: merge_def mergeEntry_eq contextKey_def)
qed

subsection \<open>Removing credentials\<close>

lemma remove_eq:
  "remove n c =
     (\<not> absent n c \<or> CurrentContext c = contextKey n,
      \<lparr>Clusters = AList.delete (clusterKey n) (Clusters c),
       AuthInfos = AList.delete (userKey n) (AuthInfos c),
       Contexts = AList.delete (contextKey n) (Contexts c),
       CurrentContext = (if CurrentContext c = contextKey n then [] else CurrentContext c)\<rparr>)"
  by (cases c) (auto simp: remove_def absent_def Let_def map_of_eq_None_iff)

lemma remove_untouched:
  "absent n c \<Longrightarrow> CurrentContext c \<noteq> contextKey n \<Longrightarrow> remove n c = (False, c)"
  by (cases c) (simp add: remove_eq absent_def map_of_eq_None_iff)

lemma removeFrom_untouched:
  "\<forall>p \<in> set paths. \<exists>c. files w p = Some c \<and> absent n c \<and> CurrentContext c \<noteq> contextKey n
   \<Longrightarrow> removeFrom env n paths w = (Return None, w\<lparr>trace := trace w @ map LoadFile paths\<rparr>)"
proof (induction paths arbitrary: w)
  case Nil
  then show ?case by simp
next
  case (Cons p paths)
  from Cons.prems obtain c where c: "files w p = Some c" "absent n c" "CurrentContext c \<noteq> contextKey n"
    by auto
  let ?w1 = "w\<lparr>trace := trace w @ [LoadFile p]\<rparr>"
  have "\<forall>p \<in> set paths. \<exists>c. files ?w1 p = Some c \<and> absent n c \<and> CurrentContext c \<noteq> contextKey n"
    using Cons.prems by simp
  from Cons.IH[OF this] c show ?case
    by (simp add: LoadFromFile_def remove_untouched)
qed

text \<open>
  Claim C5 says that removal mutates nothing when none of the derived keys is present.
  It does when the current context still names the context key: \<^verbatim>\<open>remove\<close> clears it and
  reports a mutation, and \<^verbatim>\<open>Remove\<close> rewrites the file.
\<close>

theorem remove_dangling_current_rewrites:
  "absent ''bootstrap''
     \<lparr>Clusters = [(''prod'', \<lparr>Server = ''https://prod:6443'', CertificateAuthorityData = ''P''\<rparr>)],
      AuthInfos = [(''prod-admin'', \<lparr>ClientKeyData = ''pk'', ClientCertificateData = ''pc''\<rparr>)],
      Contexts = [(''prod'', \<lparr>ctx_Cluster = ''prod'', ctx_AuthInfo = ''prod-admin''\<rparr>)],
      CurrentContext = ''kBB-8-bootstrap''\<rparr>
   \<and> remove ''bootstrap''
     \<lparr>Clusters = [(''prod'', \<lparr>Server = ''https://prod:6443'', CertificateAuthorityData = ''P''\<rparr>)],
      AuthInfos = [(''prod-admin'', \<lparr>ClientKeyData = ''pk'', ClientCertificateData = ''pc''\<rparr>)],
      Contexts = [(''prod'', \<lparr>ctx_Cluster = ''prod'', ctx_AuthInfo = ''prod-admin''\<rparr>)],
      CurrentContext = ''kBB-8-bootstrap''\<rparr>
   = (True,
      \<lparr>Clusters = [(''prod'', \<lparr>Server = ''https://prod:6443'', CertificateAuthorityData = ''P''\<rparr>)],
       AuthInfos = [(''prod-admin'', \<lparr>ClientKeyData = ''pk'', ClientCertificateData = ''pc''\<rparr>)],
       Contexts = [(''prod'', \<lparr>ctx_Cluster = ''prod'', ctx_AuthInfo = ''prod-admin''\<rparr>)],
       CurrentContext = []\<rparr>)
   \<and> Remove
        \<lparr>opError = \<lambda>ev. None, nilStateStop = Return None,
         loadingPrecedence = \<lambda>explicitPath. [''/home/user/.kube/config''],
         defaultFilename = \<lambda>explicitPath. ''/home/user/.kube/config'',
         rulesLoad = \<lambda>fs explicitPath. Inl NotExist\<rparr>
        ''bootstrap'' []
        \<lparr>files = [''/home/user/.kube/config'' \<mapsto>
           \<lparr>Clusters = [(''prod'', \<lparr>Server = ''https://prod:6443'', CertificateAuthorityData = ''P''\<rparr>)],
            AuthInfos = [(''prod-admin'', \<lparr>ClientKeyData = ''pk'', ClientCertificateData = ''pc''\<rparr>)],
            Contexts = [(''prod'', \<lparr>ctx_Cluster = ''prod'', ctx_AuthInfo = ''prod-admin''\<rparr>)],
            CurrentContext = ''kBB-8-bootstrap''\<rparr>],
         trace = []\<rparr>
      = (Return None,
         \<lparr>files = [''/home/user/.kube/config'' \<mapsto>
           \<lparr>Clusters = [(''prod'', \<lparr>Server = ''https://prod:6443'', CertificateAuthorityData = ''P''\<rparr>)],
            AuthInfos = [(''prod-admin'', \<lparr>ClientKeyData = ''pk'', ClientCertificateData = ''pc''\<rparr>)],
            Contexts = [(''prod'', \<lparr>ctx_Cluster = ''prod'', ctx_AuthInfo = ''prod-admin''\<rparr>)],
            CurrentContext = []\<rparr>],
          trace = [LoadFile ''/home/user/.kube/config'', WriteFile ''/home/user/.kube/config'']\<rparr>)"
  by (simp add: absent_def remove_def Remove_def LoadFromFile_def WriteToFile_def
      clusterKey_def userKey_def contextKey_def)

text \<open>
  Claim C5, amended: \<^verbatim>\<open>remove\<close> leaves none of the three derived keys in the maps, keeps
  every other entry, and clears the current context exactly when it was the context key of
  this cluster name; when none of the derived keys is present and the current context is
  not that context key, \<^verbatim>\<open>remove\<close> reports no mutation and leaves the config as it is, and
  \<^verbatim>\<open>Remove\<close>, over files that all load and are all in that state, returns no error and
  only loads them: no file is written.
\<close>

theorem remove_amended:
  "absent n (snd (remove n c))
   \<and> filter (\<lambda>entry. fst entry \<noteq> clusterKey n) (Clusters (snd (remove n c)))
       = filter (\<lambda>entry. fst entry \<noteq> clusterKey n) (Clusters c)
   \<and> filter (\<lambda>entry. fst entry \<noteq> userKey n) (AuthInfos (snd (remove n c)))
       = filter (\<lambda>entry. fst entry \<noteq> userKey n) (AuthInfos c)
   \<and> filter (\<lambda>entry. fst entry \<noteq> contextKey n) (Contexts (snd (remove n c)))
       = filter (\<lambda>entry. fst entry \<noteq> contextKey n) (Contexts c)
   \<and> CurrentContext (snd (remove n c))
       = (if CurrentContext c = contextKey n then [] else CurrentContext c)
   \<and> (absent n c \<and> CurrentContext c \<noteq> contextKey n \<longrightarrow> remove n c = (False, c))
   \<and> ((\<forall>p \<in> set (loadingPrecedence env explicitPath).
          \<exists>c'. files w p = Some c' \<and> absent n c' \<and> CurrentContext c' \<noteq> contextKey n)
        \<longrightarrow> Remove env n explicitPath w
              = (Return None, w\<lparr>trace := trace w @ map LoadFile (loadingPrecedence env explicitPath)\<rparr>))"
proof -
  have del: "\<And>k (m :: (string \<times> 'a) list).
      filter (\<lambda>entry. fst entry \<noteq> k) (AList.delete k m) = filter (\<lambda>entry. fst entry \<noteq> k) m"
    by (auto simp: AList.delete_eq intro: filter_cong)
  have a: "absent n (snd (remove n c))"
    by (simp add: remove_eq absent_def delete_conv')
  have b: "filter (\<lambda>entry. fst entry \<noteq> clusterKey n) (Clusters (snd (remove n c)))
       = filter (\<lambda>entry. fst entry \<noteq> clusterKey n) (Clusters c)"
    by (simp add: remove_eq del)
  have b2: "filter (\<lambda>entry. fst entry \<noteq> userKey n) (AuthInfos (snd (remove n c)))
       = filter (\<lambda>entry. fst entry \<noteq> userKey n) (AuthInfos c)"
    by (simp add: remove_eq del)
  have b3: "filter (\<lambda>entry. fst entry \<noteq> contextKey n) (Contexts (snd (remove n c)))
       = filter (\<lambda>entry. fst entry \<noteq> contextKey n) (Contexts c)"
    by (simp add: remove_eq del)
  have d: "CurrentContext (snd (remove n c))
       = (if CurrentContext c = contextKey n then [] else CurrentContext c)"
    by (simp add: remove_eq)
  have e: "absent n c \<and> CurrentContext c \<noteq> contextKey n \<longrightarrow> remove n c = (False, c)"
    by (simp add: remove_untouched)
  have f: "(\<forall>p \<in> set (loadingPrecedence env explicitPath).
          \<exists>c'. files w p = Some c' \<and> absent n c' \<and> CurrentContext c' \<noteq> contextKey n)
        \<longrightarrow> Remove env n explicitPath w
              = (Return None, w\<lparr>trace := trace w @ map LoadFile (loadingPrecedence env explicitPath)\<rparr>)"
    by (simp add: Remove_def removeFrom_untouched)
  from a b b2 b3 d e f show ?thesis by blast
qed

theorem remove_amended_witness:
  "remove ''bootstrap''
     \<lparr>Clusters = [(''prod'', \<lparr>Server = ''https://prod:6443'', CertificateAuthorityData = ''P''\<rparr>)],
      AuthInfos = [(''prod-admin'', \<lparr>ClientKeyData = ''pk'', ClientCertificateData = ''pc''\<rparr>)],
      Contexts = [(''prod'', \<lparr>ctx_Cluster = ''prod'', ctx_AuthInfo = ''prod-admin''\<rparr>)],
      CurrentContext = ''prod''\<rparr>
   = (False,
      \<lparr>Clusters = [(''prod'', \<lparr>Server = ''https://prod:6443'', CertificateAuthorityData = ''P''\<rparr>)],
       AuthInfos = [(''prod-admin'', \<lparr>ClientKeyData = ''pk'', ClientCertificateData = ''pc''\<rparr>)],
       Contexts = [(''prod'', \<lparr>ctx_Cluster = ''prod'', ctx_AuthInfo = ''prod-admin''\<rparr>)],
       CurrentContext = ''prod''\<rparr>)
   \<and> Remove
        \<lparr>opError = \<lambda>ev. None, nilStateStop = Return None,
         loadingPrecedence = \<lambda>explicitPath. [''/home/user/.kube/config''],
         defaultFilename = \<lambda>explicitPath. ''/home/user/.kube/config'',
         rulesLoad = \<lambda>fs explicitPath. Inl NotExist\<rparr>
        ''bootstrap'' []
        \<lparr>files = [''/home/user/.kube/config'' \<mapsto>
           \<lparr>Clusters = [(''prod'', \<lparr>Server = ''https://prod:6443'', CertificateAuthorityData = ''P''\<rparr>)],
            AuthInfos = [(''prod-admin'', \<lparr>ClientKeyData = ''pk'', ClientCertificateData = ''pc''\<rparr>)],
            Contexts = [(''prod'', \<lparr>ctx_Cluster = ''prod'', ctx_AuthInfo = ''prod-admin''\<rparr>)],
            CurrentContext = ''prod''\<rparr>],
         trace = []\<rparr>
      = (Return None,
         \<lparr>files = [''/home/user/.kube/config'' \<mapsto>
           \<lparr>Clusters = [(''prod'', \<lparr>Server = ''https://prod:6443'', CertificateAuthorityData = ''P''\<rparr>)],
            AuthInfos = [(''prod-admin'', \<lparr>ClientKeyData = ''pk'', ClientCertificateData = ''pc''\<rparr>)],
            Contexts = [(''prod'', \<lparr>ctx_Cluster = ''prod'', ctx_AuthInfo = ''prod-admin''\<rparr>)],
            CurrentContext = ''prod''\<rparr>],
          trace = [LoadFile ''/home/user/.kube/config'']\<rparr>)"
  using remove_amended
    [of "''bootstrap''"
        "\<lparr>Clusters = [(''prod'', \<lparr>Server = ''https://prod:6443'', CertificateAuthorityData = ''P''\<rparr>)],
          AuthInfos = [(''prod-admin'', \<lparr>ClientKeyData = ''pk'', ClientCertificateData = ''pc''\<rparr>)],
          Contexts = [(''prod'', \<lparr>ctx_Cluster = ''prod'', ctx_AuthInfo = ''prod-admin''\<rparr>)],
          CurrentContext = ''prod''\<rparr>"
        "\<lparr>opError = \<lambda>ev. None, nilStateStop = Return None,
         loadingPrecedence = \<lambda>explicitPath. [''/home/user/.kube/config''],
         defaultFilename = \<lambda>explicitPath. ''/home/user/.kube/config'',
         rulesLoad = \<lambda>fs explicitPath. Inl NotExist\<rparr>"
        "[]"
        "\<lparr>files = [''/home/user/.kube/config'' \<mapsto>
           \<lparr>Clusters = [(''prod'', \<lparr>Server = ''https://prod:6443'', CertificateAuthorityData = ''P''\<rparr>)],
            AuthInfos = [(''prod-admin'', \<lparr>ClientKeyData = ''pk'', ClientCertificateData = ''pc''\<rparr>)],
            Contexts = [(''prod'', \<lparr>ctx_Cluster = ''prod'', ctx_AuthInfo = ''prod-admin''\<rparr>)],
            CurrentContext = ''prod''\<rparr>],
         trace = []\<rparr>"]
  by (simp add: absent_def clusterKey_def userKey_def contextKey_def)

subsection \<open>The order of teardown\<close>

lemma orReturn_returnNil: "orReturn step returnNil = step"
  by (rule ext) (auto simp: orReturn_def returnNil_def split: prod.splits outcome.splits option.splits)

lemma orReturn_ok: "step w = (Return None, w') \<Longrightarrow> orReturn step rest w = rest w'"
  by (simp add: orReturn_def)

lemma stop_steps:
  assumes "opError env = (\<lambda>ev. None)"
  shows "orReturn (process_Stop env (Some ps))
           (orReturn (flushIfSet env writer) (orReturn (closeIfSet env logf) rest)) w
         = rest (w\<lparr>trace := trace w @ stopEvents ps writer logf\<rparr>)"
  using assms
  by (cases writer; cases logf)
     (simp_all add: orReturn_def process_Stop_def flushIfSet_def closeIfSet_def sysCall_def
        returnNil_def stopEvents_def)

lemma removeFrom_trace:
  "removeFrom env n paths w = (r, w') \<Longrightarrow>
     \<exists>evs. trace w' = trace w @ evs \<and> list_all credentialsEvent evs"
proof (induction paths arbitrary: w)
  case Nil
  then show ?case by simp
next
  case (Cons p paths)
  let ?w1 = "w\<lparr>trace := trace w @ [LoadFile p]\<rparr>"
  show ?case
  proof (cases "files w p")
    case None
    with Cons.prems show ?thesis by (auto simp: LoadFromFile_def)
  next
    case (Some c)
    show ?thesis
    proof (cases "fst (remove n c)")
      case False
      with Some Cons.prems have "removeFrom env n paths ?w1 = (r, w')"
        by (auto simp: LoadFromFile_def split: prod.splits bool.splits)
      from Cons.IH[OF this] show ?thesis by auto
    next
      case True
      show ?thesis
      proof (cases "opError env (WriteFile p)")
        case (Some err)
        with True \<open>files w p = Some c\<close> Cons.prems show ?thesis
          by (auto simp: LoadFromFile_def WriteToFile_def split: prod.splits bool.splits)
      next
        case None
        let ?w2 = "?w1\<lparr>files := (files ?w1)(p \<mapsto> snd (remove n c)), trace := trace ?w1 @ [WriteFile p]\<rparr>"
        from None True \<open>files w p = Some c\<close> Cons.prems have "removeFrom env n paths ?w2 = (r, w')"
          by (auto simp: LoadFromFile_def WriteToFile_def split: prod.splits bool.splits)
        from Cons.IH[OF this] show ?thesis by auto
      qed
    qed
  qed
qed

text \<open>
  Claim C2 says that \<^verbatim>\<open>Stop()\<close> removes the credentials first, then stops the API
  server, then the store. On a started control plane whose credentials are published, the
  operations come in another order: the API server is stopped first, then etcd, and the
  credentials file is loaded and rewritten last.
\<close>

theorem ControlPlane_Stop_credentials_last:
  "ControlPlane_Stop
     \<lparr>opError = \<lambda>ev. None, nilStateStop = Return None,
      loadingPrecedence = \<lambda>explicitPath. [''/home/user/.kube/config''],
      defaultFilename = \<lambda>explicitPath. ''/home/user/.kube/config'',
      rulesLoad = \<lambda>fs explicitPath. Inl NotExist\<rparr>
     \<lparr>cp_PackagePath = ''./test/packages/bootstrap-kubernetes'',
      KubeConfigFile = ''/home/user/.kube/config'',
      KubeConfigContext = ''kBB-8-bootstrap'',
      etcd = Some \<lparr>etcd_Path = ''test/packages/bootstrap-kubernetes/etcd'',
                    etcd_URL = Some ''http://127.0.0.1:2379'',
                    dataDir = ''/w/.tmp/kubernetes/etcd/data'',
                    etcd_processState = Some \<lparr>ps_Path = ''test/packages/bootstrap-kubernetes/etcd'',
                                                ps_Args = [], ps_started = True\<rparr>,
                    etcd_logFile = Some ''/w/.tmp/kubernetes/etcd/etcd.log'',
                    etcd_logFileWriter = Some ''/w/.tmp/kubernetes/etcd/etcd.log''\<rparr>,
      apiServer = Some \<lparr>EtcdURL = Some ''http://127.0.0.1:2379'',
                         api_Path = ''test/packages/bootstrap-kubernetes/kube-apiserver'',
                         api_URL = Some ''https://127.0.0.1:6443'', api_CA = None,
                         api_processState = Some
                           \<lparr>ps_Path = ''test/packages/bootstrap-kubernetes/kube-apiserver'',
                            ps_Args = [], ps_started = True\<rparr>,
                         api_logFile = Some ''/w/.tmp/kubernetes/api-server/api-server.log'',
                         api_logFileWriter = Some ''/w/.tmp/kubernetes/api-server/api-server.log''\<rparr>\<rparr>
     \<lparr>files = [''/home/user/.kube/config'' \<mapsto>
        \<lparr>Clusters = [(''kBB-8-bootstrap'', \<lparr>Server = ''https://127.0.0.1:6443'', CertificateAuthorityData = ''CA''\<rparr>)],
         AuthInfos = [(''kBB-8-bootstrap-admin'', \<lparr>ClientKeyData = ''key'', ClientCertificateData = ''cert''\<rparr>)],
         Contexts = [(''kBB-8-bootstrap'', \<lparr>ctx_Cluster = ''kBB-8-bootstrap'',
                                             ctx_AuthInfo = ''kBB-8-bootstrap-admin''\<rparr>)],
         CurrentContext = ''kBB-8-bootstrap''\<rparr>],
      trace = []\<rparr>
   = (Return None,
      \<lparr>files = [''/home/user/.kube/config'' \<mapsto>
        \<lparr>Clusters = [], AuthInfos = [], Contexts = [], CurrentContext = []\<rparr>],
       trace = [ProcessStop ''test/packages/bootstrap-kubernetes/kube-apiserver'',
                Flush ''/w/.tmp/kubernetes/api-server/api-server.log'',
                Close ''/w/.tmp/kubernetes/api-server/api-server.log'',
                ProcessStop ''test/packages/bootstrap-kubernetes/etcd'',
                Flush ''/w/.tmp/kubernetes/etcd/etcd.log'',
                Close ''/w/.tmp/kubernetes/etcd/etcd.log'',
                RemoveAll ''/w/.tmp/kubernetes/etcd/data'',
                LoadFile ''/home/user/.kube/config'', WriteFile ''/home/user/.kube/config'']\<rparr>)"
  by (simp add: ControlPlane_Stop_def APIServer_Stop_def Etcd_Stop_def orReturn_def process_Stop_def
      flushIfSet_def closeIfSet_def sysCall_def returnNil_def Remove_def LoadFromFile_def
      WriteToFile_def remove_def clusterKey_def userKey_def contextKey_def)

text \<open>
  Claim C2, amended: when no operation fails, \<^verbatim>\<open>Stop()\<close> on a control plane whose API
  server and etcd have their process state first stops the API server (process, log
  writer, log file), then etcd (process, log writer, log file, data directory), and then
  runs \<^verbatim>\<open>kubeconfig.Remove("bootstrap", "")\<close>, whose result it returns: every operation on
  the credentials file comes after the two stops.
\<close>

theorem ControlPlane_Stop_order:
  assumes "opError env = (\<lambda>ev. None)"
    and "apiServer cp = Some a" and "api_processState a = Some pa"
    and "etcd cp = Some e" and "etcd_processState e = Some pe"
  shows "\<exists>evs.
           ControlPlane_Stop env cp w =
             Remove env ''bootstrap'' []
               (w\<lparr>trace := trace w @ stopEvents pa (api_logFileWriter a) (api_logFile a)
                                   @ stopEvents pe (etcd_logFileWriter e) (etcd_logFile e)
                                   @ [RemoveAll (dataDir e)]\<rparr>)
         \<and> trace (snd (ControlPlane_Stop env cp w)) =
             trace w @ stopEvents pa (api_logFileWriter a) (api_logFile a)
                     @ stopEvents pe (etcd_logFileWriter e) (etcd_logFile e)
                     @ [RemoveAll (dataDir e)] @ evs
         \<and> list_all credentialsEvent evs"
proof -
  let ?w1 = "w\<lparr>trace := trace w @ stopEvents pa (api_logFileWriter a) (api_logFile a)\<rparr>"
  let ?w2 = "w\<lparr>trace := trace w @ stopEvents pa (api_logFileWriter a) (api_logFile a)
                                   @ stopEvents pe (etcd_logFileWriter e) (etcd_logFile e)
                                   @ [RemoveAll (dataDir e)]\<rparr>"
  have api: "APIServer_Stop env (Some a) w = (Return None, ?w1)"
    using assms(3) by (simp add: APIServer_Stop_def stop_steps[OF assms(1)] returnNil_def)
  have store: "Etcd_Stop env (Some e) ?w1 = (Return None, ?w2)"
    using assms(1,5) by (simp add: Etcd_Stop_def stop_steps[OF assms(1)] sysCall_def)
  have run: "ControlPlane_Stop env cp w = Remove env ''bootstrap'' [] ?w2"
    using assms(2,4)
    by (simp add: ControlPlane_Stop_def orReturn_returnNil
        orReturn_ok[where step = "APIServer_Stop env (Some a)", OF api]
        orReturn_ok[where step = "Etcd_Stop env (Some e)", OF store])
  obtain r w' where rw: "Remove env ''bootstrap'' [] ?w2 = (r, w')"
    by (cases "Remove env ''bootstrap'' [] ?w2")
  from removeFrom_trace[OF rw[unfolded Remove_def]] obtain evs where
    evs: "trace w' = trace ?w2 @ evs" "list_all credentialsEvent evs" by blast
  from run rw evs show ?thesis by (intro exI[of _ evs]) simp
qed

theorem ControlPlane_Stop_order_witness:
  "ControlPlane_Stop
     \<lparr>opError = \<lambda>ev. None, nilStateStop = Return None,
      loadingPrecedence = \<lambda>explicitPath. [''/home/user/.kube/config''],
      defaultFilename = \<lambda>explicitPath. ''/home/user/.kube/config'',
      rulesLoad = \<lambda>fs explicitPath. Inl NotExist\<rparr>
     \<lparr>cp_PackagePath = ''pkg'', KubeConfigFile = ''/home/user/.kube/config'',
      KubeConfigContext = ''kBB-8-bootstrap'',
      etcd = Some \<lparr>etcd_Path = ''pkg/etcd'', etcd_URL = Some ''http://127.0.0.1:2379'',
                    dataDir = ''etcd/data'',
                    etcd_processState = Some \<lparr>ps_Path = ''pkg/etcd'', ps_Args = [], ps_started = True\<rparr>,
                    etcd_logFile = Some ''etcd/etcd.log'', etcd_logFileWriter = Some ''etcd/etcd.log''\<rparr>,
      apiServer = Some \<lparr>EtcdURL = Some ''http://127.0.0.1:2379'', api_Path = ''pkg/kube-apiserver'',
                         api_URL = Some ''https://127.0.0.1:6443'', api_CA = None,
                         api_processState = Some \<lparr>ps_Path = ''pkg/kube-apiserver'', ps_Args = [],
                                                   ps_started = True\<rparr>,
                         api_logFile = Some ''api-server/api-server.log'',
                         api_logFileWriter = None\<rparr>\<rparr>
     \<lparr>files = [''/home/user/.kube/config'' \<mapsto>
        \<lparr>Clusters = [(''prod'', \<lparr>Server = ''https://prod:6443'', CertificateAuthorityData = ''P''\<rparr>),
                     (''kBB-8-bootstrap'', \<lparr>Server = ''https://127.0.0.1:6443'', CertificateAuthorityData = ''CA''\<rparr>)],
         AuthInfos = [(''kBB-8-bootstrap-admin'', \<lparr>ClientKeyData = ''key'', ClientCertificateData = ''cert''\<rparr>)],
         Contexts = [(''kBB-8-bootstrap'', \<lparr>ctx_Cluster = ''kBB-8-bootstrap'',
                                             ctx_AuthInfo = ''kBB-8-bootstrap-admin''\<rparr>)],
         CurrentContext = ''prod''\<rparr>],
      trace = []\<rparr>
   = (Return None,
      \<lparr>files = [''/home/user/.kube/config'' \<mapsto>
        \<lparr>Clusters = [(''prod'', \<lparr>Server = ''https://prod:6443'', CertificateAuthorityData = ''P''\<rparr>)],
         AuthInfos = [], Contexts = [], CurrentContext = ''prod''\<rparr>],
       trace = [ProcessStop ''pkg/kube-apiserver'', Close ''api-server/api-server.log'',
                ProcessStop ''pkg/etcd'', Flush ''etcd/etcd.log'', Close ''etcd/etcd.log'',
                RemoveAll ''etcd/data'',
                LoadFile ''/home/user/.kube/config'', WriteFile ''/home/user/.kube/config'']\<rparr>)"
proof -
  let ?env = "\<lparr>opError = \<lambda>ev. None, nilStateStop = Return None,
      loadingPrecedence = \<lambda>explicitPath. [''/home/user/.kube/config''],
      defaultFilename = \<lambda>explicitPath. ''/home/user/.kube/config'',
      rulesLoad = \<lambda>fs explicitPath. Inl NotExist\<rparr>"
  let ?pe = "\<lparr>ps_Path = ''pkg/etcd'', ps_Args = [], ps_started = True\<rparr>"
  let ?pa = "\<lparr>ps_Path = ''pkg/kube-apiserver'', ps_Args = [], ps_started = True\<rparr>"
  let ?e = "\<lparr>etcd_Path = ''pkg/etcd'', etcd_URL = Some ''http://127.0.0.1:2379'',
                    dataDir = ''etcd/data'', etcd_processState = Some ?pe,
                    etcd_logFile = Some ''etcd/etcd.log'', etcd_logFileWriter = Some ''etcd/etcd.log''\<rparr>"
  let ?a = "\<lparr>EtcdURL = Some ''http://127.0.0.1:2379'', api_Path = ''pkg/kube-apiserver'',
                         api_URL = Some ''https://127.0.0.1:6443'', api_CA = None,
                         api_processState = Some ?pa,
                         api_logFile = Some ''api-server/api-server.log'',
                         api_logFileWriter = None\<rparr>"
  let ?cp = "\<lparr>cp_PackagePath = ''pkg'', KubeConfigFile = ''/home/user/.kube/config'',
      KubeConfigContext = ''kBB-8-bootstrap'', etcd = Some ?e, apiServer = Some ?a\<rparr>"
  have h1: "opError ?env = (\<lambda>ev. None)" by simp
  have h2: "apiServer ?cp = Some ?a" by simp
  have h3: "api_processState ?a = Some ?pa" by simp
  have h4: "etcd ?cp = Some ?e" by simp
  have h5: "etcd_processState ?e = Some ?pe" by simp
  from ControlPlane_Stop_order[OF h1 h2 h3 h4 h5] show ?thesis
    by (simp add: stopEvents_def Remove_def LoadFromFile_def WriteToFile_def remove_def
        clusterKey_def userKey_def contextKey_def)
qed

end
